theory Spec2Isabelle
  imports Complex_Main "HOL-Library.DAList"
begin

section \<open>Data model of \<open>src/src/main.ts\<close>\<close>

text \<open>
  The program is an entity-component store (\<open>class World\<close>) with the systems that
  snap tiles to a grid and drag them with the pointer.

  Conventions of the embedding:
  \<^item> a JavaScript \<open>number\<close> is an exact real; rounding of doubles, \<open>NaN\<close> and the
    infinities are not modelled (all coordinates of the program are small integers,
    on which doubles are exact);
  \<^item> \<open>undefined\<close> is \<open>None\<close>;
  \<^item> a JavaScript \<open>Map\<close> is an association list with distinct keys in insertion order,
    the type \<open>('k, 'v) alist\<close> of \<open>HOL-Library.DAList\<close>: \<open>DAList.lookup\<close> is \<open>get\<close>,
    \<open>DAList.update\<close> is \<open>set\<close> (an existing key keeps its place, a new key goes to the
    end), \<open>DAList.delete\<close> is \<open>delete\<close>, and \<open>DAList.impl_of\<close> lists the entries in
    iteration order;
  \<^item> a component instance is stored by value under its (class name, entity id) pair.
    The source stores object references; the value model is exact as long as no
    instance (and no \<open>Vector2\<close>) is shared between two pairs, which is the data
    model of the specification (a component is attached to at most one entity-type
    pairing) and what \<open>main\<close> builds (every component is a fresh \<open>new\<close>);
  \<^item> a method that mutates the world returns the world after the call; a method that
    can throw returns the exception, if any, together with the world as the
    exception left it.
\<close>

type_synonym number = real

type_synonym EntityId = int

datatype Vector2 = Vector2 number number

datatype Rectangle = Rectangle number number number number

text \<open>The classes extending \<open>Component\<close>. The image and canvas handles are opaque.\<close>

datatype Component =
    Position Vector2
  | Size Vector2
  | DisplayFrame Vector2
  | GridPosition (column: number) (line: number)
  | DisplayPlane EntityId
  | Sprite string
  | Label string
  | Dragged
  | Draggable
  | Canvas nat nat
  | PlayerProperties string

text \<open>\<open>component.constructor.name\<close>, and \<open>type.name\<close> of the class itself.\<close>

fun constructor_name :: "Component \<Rightarrow> string" where
  "constructor_name (Position _) = ''Position''"
| "constructor_name (Size _) = ''Size''"
| "constructor_name (DisplayFrame _) = ''DisplayFrame''"
| "constructor_name (GridPosition _ _) = ''GridPosition''"
| "constructor_name (DisplayPlane _) = ''DisplayPlane''"
| "constructor_name (Sprite _) = ''Sprite''"
| "constructor_name (Label _) = ''Label''"
| "constructor_name Dragged = ''Dragged''"
| "constructor_name Draggable = ''Draggable''"
| "constructor_name (Canvas _ _) = ''Canvas''"
| "constructor_name (PlayerProperties _) = ''PlayerProperties''"

datatype error = ComponentNotRegistered string | TypeError

record World =
  registry :: "string \<Rightarrow> (EntityId, Component) alist option"
  lastId :: EntityId

record MouseEvent =
  clientX :: number
  clientY :: number

section \<open>Geometry\<close>

text \<open>\<open>Rectangle.from\<close> and \<open>Rectangle.contains\<close>.\<close>

fun Rectangle_from :: "Vector2 \<Rightarrow> Vector2 \<Rightarrow> Rectangle" where
  "Rectangle_from (Vector2 ox oy) (Vector2 sx sy) = Rectangle ox oy sx sy"

fun contains :: "Rectangle \<Rightarrow> Vector2 \<Rightarrow> bool" where
  "contains (Rectangle rx ry rw rh) (Vector2 px py) =
     (px < rx + rw \<and> py < ry + rh \<and> px > rx \<and> py > ry)"

section \<open>The World\<close>

definition World_new :: World where
  "World_new = \<lparr>registry = (\<lambda>_. None), lastId = 0\<rparr>"

definition register :: "EntityId \<Rightarrow> Component \<Rightarrow> World \<Rightarrow> World" where
  "register entityId component w =
     (let componentName = constructor_name component;
          w1 = (if registry w componentName = None
                then w\<lparr>registry := (registry w)(componentName \<mapsto> DAList.empty)\<rparr>
                else w)
      in case registry w1 componentName of
           None \<Rightarrow> w1
         | Some components \<Rightarrow>
             w1\<lparr>registry := (registry w1)
                  (componentName \<mapsto> DAList.update entityId component components)\<rparr>)"

definition rescind :: "EntityId \<Rightarrow> string \<Rightarrow> World \<Rightarrow> World" where
  "rescind entityId componentName w =
     (let w1 = (if registry w componentName = None
                then w\<lparr>registry := (registry w)(componentName \<mapsto> DAList.empty)\<rparr>
                else w)
      in case registry w1 componentName of
           None \<Rightarrow> w1
         | Some components \<Rightarrow>
             w1\<lparr>registry := (registry w1)
                  (componentName \<mapsto> DAList.delete entityId components)\<rparr>)"

definition entity :: "Component list \<Rightarrow> World \<Rightarrow> EntityId \<times> World" where
  "entity components w =
     (let entityId = lastId w + 1;
          w1 = w\<lparr>lastId := entityId\<rparr>
      in (entityId, fold (register entityId) components w1))"

definition locate :: "World \<Rightarrow> EntityId \<Rightarrow> string \<Rightarrow> Component option" where
  "locate w ident type_name =
     (case registry w type_name of
        None \<Rightarrow> None
      | Some components \<Rightarrow> DAList.lookup components ident)"

definition query :: "World \<Rightarrow> string \<Rightarrow> Component list" where
  "query w type_name =
     (case registry w type_name of
        Some components \<Rightarrow> map snd (DAList.impl_of components)
      | None \<Rightarrow> [])"

definition queryE :: "World \<Rightarrow> string \<Rightarrow> (EntityId \<times> Component) list" where
  "queryE w type_name =
     (case registry w type_name of
        Some components \<Rightarrow> DAList.impl_of components
      | None \<Rightarrow> [])"

text \<open>
  The two generators, run to the end on a world that nobody changes meanwhile. A row of
  \<open>queryEN\<close> is the array \<open>[entityId, primary, ...]\<close>, here the id paired with the rest.
\<close>

definition queryEN ::
  "World \<Rightarrow> string \<Rightarrow> string list \<Rightarrow> (EntityId \<times> Component option list) list" where
  "queryEN w primaryType otherTypes =
     (case registry w primaryType of
        None \<Rightarrow> []
      | Some primaryComponents \<Rightarrow>
          map (\<lambda>(entityId, primary).
                 (entityId, [Some primary] @ map (\<lambda>t. locate w entityId t) otherTypes))
              (DAList.impl_of primaryComponents))"

definition queryN :: "World \<Rightarrow> string \<Rightarrow> string list \<Rightarrow> Component option list list" where
  "queryN w primaryType otherTypes =
     (case registry w primaryType of
        None \<Rightarrow> []
      | Some primaryComponents \<Rightarrow>
          map (\<lambda>(entityId, primary).
                 [Some primary] @ map (\<lambda>t. locate w entityId t) otherTypes)
              (DAList.impl_of primaryComponents))"

definition query2 :: "World \<Rightarrow> string \<Rightarrow> string \<Rightarrow> Component option list list" where
  "query2 w type1 type2 = queryN w type1 [type2]"

definition query3 ::
  "World \<Rightarrow> string \<Rightarrow> string \<Rightarrow> string \<Rightarrow> Component option list list" where
  "query3 w type1 type2 type3 = queryN w type1 [type2, type3]"

definition queryE3 ::
  "World \<Rightarrow> string \<Rightarrow> string \<Rightarrow> string \<Rightarrow> (EntityId \<times> Component option list) list" where
  "queryE3 w type1 type2 type3 = queryEN w type1 [type2, type3]"

text \<open>
  \<open>components.values().next().value\<close> is the first value of the table in iteration
  order, and \<open>undefined\<close> when the table is empty.
\<close>

definition queryUnique :: "World \<Rightarrow> string \<Rightarrow> error + Component option" where
  "queryUnique w type_name =
     (case registry w type_name of
        Some components \<Rightarrow>
          Inr (case DAList.impl_of components of [] \<Rightarrow> None | (_, c) # _ \<Rightarrow> Some c)
      | None \<Rightarrow> Inl (ComponentNotRegistered type_name))"

section \<open>Loops that can throw\<close>

text \<open>
  \<open>for (const row of rows) body\<close>: the body runs on the rows in order, each time on the
  world the previous round left; an exception ends the loop and is handed on with the
  world as it is then.

  The rows come from the generators \<open>queryN\<close> and \<open>queryEN\<close>, which are lazy: they walk
  the primary table and look the other types up (\<open>locate\<close>) only when the loop asks for
  the next row. So the loops below walk the entries of the primary table as they are
  when the loop starts, and each round looks the other components up in the current
  world. No body adds an entry to the table it walks; \<open>onMouseUp\<close> deletes from it the
  entry of the current round only, which a JavaScript \<open>Map\<close> iterator allows: the
  entries after it are still visited.
\<close>

fun for_of ::
  "('a \<Rightarrow> World \<Rightarrow> error option \<times> World) \<Rightarrow> 'a list \<Rightarrow> World \<Rightarrow> error option \<times> World" where
  "for_of body [] w = (None, w)"
| "for_of body (row # rows) w =
     (case body row w of
        (None, w') \<Rightarrow> for_of body rows w'
      | (Some err, w') \<Rightarrow> (Some err, w'))"

text \<open>
  Assignments to the fields of the instance stored under a (class name, entity id) pair:
  the entry keeps its place in the table and holds the instance with its new fields.
\<close>

definition assign :: "string \<Rightarrow> EntityId \<Rightarrow> Component \<Rightarrow> World \<Rightarrow> World" where
  "assign type_name entityId component w =
     (case registry w type_name of
        None \<Rightarrow> w
      | Some components \<Rightarrow>
          w\<lparr>registry := (registry w)
               (type_name \<mapsto> DAList.map_entry entityId (\<lambda>_. component) components)\<rparr>)"

section \<open>GridPositionSystem\<close>

text \<open>
  One round of the loop of \<open>onFrame\<close> over \<open>query3(GridPosition, Position, Dragged)\<close>.
  \<open>cPosition!\<close> checks nothing at run time: writing \<open>cPosition.position.x\<close> throws a
  \<open>TypeError\<close> when \<open>cPosition\<close> is \<open>undefined\<close> (or has no \<open>position\<close>).
\<close>

definition GridPositionSystem_onFrame_body ::
  "EntityId \<times> Component \<Rightarrow> World \<Rightarrow> error option \<times> World" where
  "GridPositionSystem_onFrame_body row w =
     (case row of (entityId, cGrid) \<Rightarrow>
        (let cPosition = locate w entityId ''Position'';
             cDragged = locate w entityId ''Dragged''
         in if cDragged = None
            then (case cPosition of
                    Some (Position _) \<Rightarrow>
                      (None, assign ''Position'' entityId
                               (Position (Vector2 (column cGrid * 64) (line cGrid * 64))) w)
                  | _ \<Rightarrow> (Some TypeError, w))
            else (None, w)))"

definition GridPositionSystem_onFrame :: "World \<Rightarrow> number \<Rightarrow> error option \<times> World" where
  "GridPositionSystem_onFrame w delta =
     for_of GridPositionSystem_onFrame_body (queryE w ''GridPosition'') w"

section \<open>The coordinate transform\<close>

text \<open>
  \<open>CanvasSystem.screenPosition\<close> and \<open>TileDragSystem.screenPosition\<close> are the same text.
  \<open>frames\<close> is \<open>new Map(world.queryE(DisplayFrame))\<close>, of which only \<open>get\<close> is used.
  Reading \<open>.position\<close> of an absent position, or \<open>.x\<close> of an absent frame start, throws.
\<close>

definition CanvasSystem_screenPosition ::
  "(EntityId \<Rightarrow> Component option) \<Rightarrow> Component option \<Rightarrow> Component option \<Rightarrow> error + Vector2" where
  "CanvasSystem_screenPosition frames cPosition cPlane =
     (case cPlane of
        None \<Rightarrow> (case cPosition of Some (Position p) \<Rightarrow> Inr p | _ \<Rightarrow> Inl TypeError)
      | Some (DisplayPlane plane) \<Rightarrow>
          (case (cPosition, frames plane) of
             (Some (Position (Vector2 px py)), Some (DisplayFrame (Vector2 fx fy))) \<Rightarrow>
               Inr (Vector2 (px - fx) (py - fy))
           | _ \<Rightarrow> Inl TypeError)
      | Some _ \<Rightarrow> Inl TypeError)"

definition TileDragSystem_screenPosition ::
  "(EntityId \<Rightarrow> Component option) \<Rightarrow> Component option \<Rightarrow> Component option \<Rightarrow> error + Vector2" where
  "TileDragSystem_screenPosition frames cPosition cPlane =
     (case cPlane of
        None \<Rightarrow> (case cPosition of Some (Position p) \<Rightarrow> Inr p | _ \<Rightarrow> Inl TypeError)
      | Some (DisplayPlane plane) \<Rightarrow>
          (case (cPosition, frames plane) of
             (Some (Position (Vector2 px py)), Some (DisplayFrame (Vector2 fx fy))) \<Rightarrow>
               Inr (Vector2 (px - fx) (py - fy))
           | _ \<Rightarrow> Inl TypeError)
      | Some _ \<Rightarrow> Inl TypeError)"

section \<open>TileDragSystem\<close>

definition TileDragSystem_onMouseDown_body ::
  "(EntityId \<Rightarrow> Component option) \<Rightarrow> MouseEvent \<Rightarrow> EntityId \<times> Component \<Rightarrow> World
     \<Rightarrow> error option \<times> World" where
  "TileDragSystem_onMouseDown_body frames event row w =
     (case row of (eid, _) \<Rightarrow>
        (let cPosition = locate w eid ''Position'';
             cPlane = locate w eid ''DisplayPlane''
         in case TileDragSystem_screenPosition frames cPosition cPlane of
              Inl err \<Rightarrow> (Some err, w)
            | Inr position \<Rightarrow>
                if contains (Rectangle_from position (Vector2 64 64))
                     (Vector2 (clientX event) (clientY event))
                then (None, register eid Dragged w)
                else (None, w)))"

definition TileDragSystem_onMouseDown :: "World \<Rightarrow> MouseEvent \<Rightarrow> error option \<times> World" where
  "TileDragSystem_onMouseDown w event =
     (let frames = map_of (queryE w ''DisplayFrame'')
      in for_of (TileDragSystem_onMouseDown_body frames event) (queryE w ''Draggable'') w)"

text \<open>
  The hit test in the words of the specification (section 4.6): the pointer is strictly
  inside the 64 by 64 rectangle anchored at the screen position \<open>(x0, y0)\<close> of the
  entity, \<open>x0 < px < x0 + 64\<close> and \<open>y0 < py < y0 + 64\<close>. It is what the statements about
  \<open>onMouseDown\<close> compare the code with.
\<close>

definition under_pointer :: "World \<Rightarrow> MouseEvent \<Rightarrow> EntityId \<Rightarrow> bool" where
  "under_pointer w event e =
     (case TileDragSystem_screenPosition (map_of (queryE w ''DisplayFrame''))
             (locate w e ''Position'') (locate w e ''DisplayPlane'') of
        Inr (Vector2 x0 y0) \<Rightarrow>
          x0 < clientX event \<and> clientX event < x0 + 64 \<and>
          y0 < clientY event \<and> clientY event < y0 + 64
      | Inl _ \<Rightarrow> False)"

text \<open>
  One round of the loop of \<open>onMouseUp\<close>. The two assignments to \<open>cGrid\<close> throw when
  \<open>cGrid\<close> or \<open>cPosition\<close> is \<open>undefined\<close>; the log line comes last and throws, after the
  grid position is written and \<open>Dragged\<close> rescinded, when \<open>player\<close> is \<open>undefined\<close>. What
  the console prints is not modelled.
\<close>

definition TileDragSystem_onMouseUp_body ::
  "Component option \<Rightarrow> EntityId \<times> Component \<Rightarrow> World \<Rightarrow> error option \<times> World" where
  "TileDragSystem_onMouseUp_body player row w =
     (case row of (eid, _) \<Rightarrow>
        (let cPosition = locate w eid ''Position'';
             cGrid = locate w eid ''GridPosition''
         in case (cPosition, cGrid) of
              (Some (Position (Vector2 px py)), Some _) \<Rightarrow>
                (let w1 = assign ''GridPosition'' eid
                            (GridPosition (of_int \<lfloor>(px + 32) / 64\<rfloor>)
                                          (of_int \<lfloor>(py + 32) / 64\<rfloor>)) w;
                     w2 = rescind eid ''Dragged'' w1
                 in case player of
                      None \<Rightarrow> (Some TypeError, w2)
                    | Some _ \<Rightarrow> (None, w2))
            | _ \<Rightarrow> (Some TypeError, w)))"

definition TileDragSystem_onMouseUp :: "World \<Rightarrow> MouseEvent \<Rightarrow> error option \<times> World" where
  "TileDragSystem_onMouseUp w event =
     (case queryUnique w ''PlayerProperties'' of
        Inl err \<Rightarrow> (Some err, w)
      | Inr player \<Rightarrow>
          for_of (TileDragSystem_onMouseUp_body player) (queryE w ''Dragged'') w)"

section \<open>Sequences of calls\<close>

text \<open>
  A call of the World or of a system from outside, and the entity ids a sequence of calls
  returns. An exception of a system ends that call only; the world stays as it is then.
\<close>

datatype Call =
    Call_register EntityId Component
  | Call_rescind EntityId string
  | Call_entity "Component list"
  | Call_onFrame number
  | Call_onMouseDown MouseEvent
  | Call_onMouseUp MouseEvent

fun call :: "Call \<Rightarrow> World \<Rightarrow> EntityId list \<times> World" where
  "call (Call_register entityId component) w = ([], register entityId component w)"
| "call (Call_rescind entityId componentName) w = ([], rescind entityId componentName w)"
| "call (Call_entity components) w = (case entity components w of (i, w') \<Rightarrow> ([i], w'))"
| "call (Call_onFrame delta) w = ([], snd (GridPositionSystem_onFrame w delta))"
| "call (Call_onMouseDown event) w = ([], snd (TileDragSystem_onMouseDown w event))"
| "call (Call_onMouseUp event) w = ([], snd (TileDragSystem_onMouseUp w event))"

fun calls :: "Call list \<Rightarrow> World \<Rightarrow> EntityId list \<times> World" where
  "calls [] w = ([], w)"
| "calls (c # cs) w =
     (case call c w of (ids, w') \<Rightarrow> (case calls cs w' of (ids', w'') \<Rightarrow> (ids @ ids', w'')))"

section \<open>Facts about the World\<close>

lemma lastId_register: "lastId (register e c w) = lastId w"
  by (simp add: register_def Let_def split: option.splits)

lemma lastId_rescind: "lastId (rescind e n w) = lastId w"
  by (simp add: rescind_def Let_def split: option.splits)

lemma lastId_assign: "lastId (assign n e c w) = lastId w"
  by (simp add: assign_def split: option.splits)

lemma registry_register:
  "registry (register e c w) n =
     (if n = constructor_name c
      then Some (DAList.update e c (case registry w n of None \<Rightarrow> DAList.empty | Some t \<Rightarrow> t))
      else registry w n)"
  by (simp add: register_def Let_def split: option.splits)

lemma registry_rescind:
  "registry (rescind e T w) n =
     (if n = T
      then Some (DAList.delete e (case registry w n of None \<Rightarrow> DAList.empty | Some t \<Rightarrow> t))
      else registry w n)"
  by (simp add: rescind_def Let_def split: option.splits)

lemma registry_assign:
  "registry (assign T e c w) n =
     (if n = T then map_option (DAList.map_entry e (\<lambda>_. c)) (registry w n) else registry w n)"
  by (simp add: assign_def split: option.splits)

lemma locate_register:
  "locate (register e c w) i n =
     (if n = constructor_name c \<and> i = e then Some c else locate w i n)"
  by (simp add: locate_def registry_register DAList.lookup_update split: option.splits)

lemma locate_rescind:
  "locate (rescind e T w) i n = (if n = T \<and> i = e then None else locate w i n)"
  by (simp add: locate_def registry_rescind split: option.splits)

lemma lookup_map_entry:
  "DAList.lookup (DAList.map_entry e f t) i =
     (if i = e then map_option f (DAList.lookup t e) else DAList.lookup t i)"
  by transfer (simp add: map_of_map_entry split: option.splits)

lemma locate_assign:
  "locate (assign T e c w) i n =
     (if n = T \<and> i = e \<and> locate w e T \<noteq> None then Some c else locate w i n)"
  by (auto simp add: locate_def registry_assign lookup_map_entry split: option.splits)

lemma delete_absent: "DAList.lookup t e = None \<Longrightarrow> DAList.delete e t = t"
  by transfer (simp add: map_of_eq_None_iff)

lemma delete_empty: "DAList.delete e DAList.empty = DAList.empty"
  by transfer simp

lemma impl_of_empty: "DAList.impl_of DAList.empty = []"
  by (rule DAList.empty.rep_eq)

lemma world_eqI: "registry w = registry w' \<Longrightarrow> lastId w = lastId w' \<Longrightarrow> (w::World) = w'"
  by simp

lemma rescind_absent_table: "locate w e T = None \<Longrightarrow> registry w T \<noteq> None \<Longrightarrow> rescind e T w = w"
  by (auto simp add: rescind_def locate_def Let_def delete_absent fun_upd_idem split: option.splits)

lemma entries_of_key:
  "distinct (map fst xs) \<Longrightarrow> map_of xs e = Some v \<Longrightarrow> filter (\<lambda>(i, _). i = e) xs = [(e, v)]"
proof (induction xs)
  case Nil
  then show ?case by simp
next
  case (Cons p xs)
  obtain i c where p: "p = (i, c)" by (cases p)
  show ?case
  proof (cases "i = e")
    case True
    with Cons.prems p have "e \<notin> fst ` set xs" and "c = v" by auto
    then have "filter (\<lambda>(i, _). i = e) xs = []"
      by (force simp add: filter_empty_conv)
    with True p \<open>c = v\<close> show ?thesis by simp
  next
    case False
    with Cons p show ?thesis by simp
  qed
qed


lemma no_entries_of_key:
  "map_of xs e = None \<Longrightarrow> filter (\<lambda>(i, _). i = e) xs = []"
  by (force simp add: filter_empty_conv map_of_eq_None_iff)

lemma queryE_locate:
  "filter (\<lambda>(i, _). i = e) (queryE w T) =
     (case locate w e T of None \<Rightarrow> [] | Some c \<Rightarrow> [(e, c)])"
proof (cases "registry w T")
  case None
  then show ?thesis by (simp add: queryE_def locate_def)
next
  case (Some t)
  show ?thesis
  proof (cases "DAList.lookup t e")
    case None
    then have "map_of (DAList.impl_of t) e = None" by (simp add: DAList.lookup.rep_eq)
    with Some None show ?thesis
      by (simp add: queryE_def locate_def no_entries_of_key)
  next
    case (Some c)
    then have "map_of (DAList.impl_of t) e = Some c" by (simp add: DAList.lookup.rep_eq)
    then have "filter (\<lambda>(i, _). i = e) (DAList.impl_of t) = [(e, c)]"
      by (simp add: entries_of_key)
    with Some \<open>registry w T = Some t\<close> show ?thesis
      by (simp add: queryE_def locate_def)
  qed
qed

lemma query_queryE: "query w T = map snd (queryE w T)"
  by (simp add: query_def queryE_def split: option.splits)

lemma length_AList_update_present:
  "map_of xs e \<noteq> None \<Longrightarrow> length (AList.update e c xs) = length xs"
  by (induction xs) (auto split: if_splits)

lemma length_update_present:
  "DAList.lookup t e \<noteq> None \<Longrightarrow>
     length (DAList.impl_of (DAList.update e c t)) = length (DAList.impl_of t)"
  by (simp add: DAList.update.rep_eq DAList.lookup.rep_eq length_AList_update_present)

lemma length_queryE_register_present:
  "locate w e (constructor_name c) \<noteq> None \<Longrightarrow>
     length (queryE (register e c w) (constructor_name c)) = length (queryE w (constructor_name c))"
  by (auto simp add: queryE_def locate_def registry_register length_update_present
      split: option.splits)

lemma locate_eq_map_of_queryE: "locate w e T = map_of (queryE w T) e"
  by (simp add: locate_def queryE_def DAList.lookup.rep_eq split: option.splits)

lemma distinct_queryE: "distinct (map fst (queryE w T))"
  by (simp add: queryE_def split: option.splits)

lemma queryEN_queryE:
  "queryEN w T Us =
     map (\<lambda>(e, t). (e, Some t # map (locate w e) Us)) (queryE w T)"
  by (simp add: queryEN_def queryE_def split: option.splits)

lemma queryN_queryE:
  "queryN w T Us = map (\<lambda>(e, t). Some t # map (locate w e) Us) (queryE w T)"
  by (simp add: queryN_def queryE_def split: option.splits)

lemma keys_queryE: "set (map fst (queryE w T)) = {e. locate w e T \<noteq> None}"
  by (auto simp add: locate_eq_map_of_queryE map_of_eq_None_iff)

text \<open>
  C7. After \<open>register(e, c)\<close>, \<open>locate(e, V)\<close> for the class \<open>V\<close> of \<open>c\<close> returns \<open>c\<close>. After a
  second \<open>register(e, c')\<close> with an instance of the same class, \<open>locate(e, V)\<close> returns
  \<open>c'\<close>, the entries of the table of \<open>V\<close> that belong to \<open>e\<close> are the one entry \<open>(e, c')\<close>,
  \<open>query(V)\<close> yields \<open>c'\<close> and yields as many instances as before the second call: the
  first instance is overwritten, not duplicated.
\<close>

theorem register_locate_overwrite:
  "locate (register e c w) e (constructor_name c) = Some c \<and>
   (constructor_name c' = constructor_name c \<longrightarrow>
      locate (register e c' (register e c w)) e (constructor_name c) = Some c' \<and>
      filter (\<lambda>(i, _). i = e) (queryE (register e c' (register e c w)) (constructor_name c))
        = [(e, c')] \<and>
      c' \<in> set (query (register e c' (register e c w)) (constructor_name c)) \<and>
      length (query (register e c' (register e c w)) (constructor_name c))
        = length (query (register e c w) (constructor_name c)))"
proof -
  have first: "locate (register e c w) e (constructor_name c) = Some c"
    by (simp add: locate_register)
  have second: "locate (register e c' (register e c w)) e (constructor_name c) = Some c'"
    if "constructor_name c' = constructor_name c"
    using that by (simp add: locate_register)
  have entries:
    "filter (\<lambda>(i, _). i = e) (queryE (register e c' (register e c w)) (constructor_name c))
       = [(e, c')]"
    if "constructor_name c' = constructor_name c"
    using second [OF that] by (simp add: queryE_locate)
  have len: "length (query (register e c' (register e c w)) (constructor_name c))
       = length (query (register e c w) (constructor_name c))"
    if "constructor_name c' = constructor_name c"
    using length_queryE_register_present [of "register e c w" e c'] first that
    by (simp add: query_queryE)
  have mem: "c' \<in> set (query (register e c' (register e c w)) (constructor_name c))"
    if "constructor_name c' = constructor_name c"
  proof -
    let ?es = "queryE (register e c' (register e c w)) (constructor_name c)"
    have "(e, c') \<in> set (filter (\<lambda>(i, _). i = e) ?es)"
      using entries [OF that] by simp
    then have "(e, c') \<in> set ?es" by simp
    then show ?thesis by (force simp add: query_queryE)
  qed
  from first second entries len mem show ?thesis by blast
qed

theorem register_locate_overwrite_witness:
  "locate (register 7 (GridPosition 5 4) World_new) 7 ''GridPosition'' = Some (GridPosition 5 4) \<and>
   locate (register 7 (GridPosition 6 4) (register 7 (GridPosition 5 4) World_new)) 7 ''GridPosition''
     = Some (GridPosition 6 4) \<and>
   filter (\<lambda>(i, _). i = 7)
     (queryE (register 7 (GridPosition 6 4) (register 7 (GridPosition 5 4) World_new)) ''GridPosition'')
     = [(7, GridPosition 6 4)] \<and>
   length (query (register 7 (GridPosition 6 4) (register 7 (GridPosition 5 4) World_new)) ''GridPosition'')
     = length (query (register 7 (GridPosition 5 4) World_new) ''GridPosition'')"
  using register_locate_overwrite [of 7 "GridPosition 5 4" World_new "GridPosition 6 4"]
  by simp

text \<open>
  What \<open>rescind\<close> does and leaves alone. After \<open>rescind(e, T)\<close>, \<open>locate(e, T)\<close> returns
  absent, and \<open>lastId\<close> and the tables of the other types are as before. When no mapping
  \<open>(T, e)\<close> existed, every \<open>locate\<close>, \<open>query\<close>, \<open>queryE\<close> and join gives what it gave
  before, and when \<open>T\<close> has a table the World itself is unchanged.
\<close>

lemma rescind_effect:
  "locate (rescind e T w) e T = None \<and>
   lastId (rescind e T w) = lastId w \<and>
   (\<forall>n. n \<noteq> T \<longrightarrow> registry (rescind e T w) n = registry w n) \<and>
   (locate w e T = None \<longrightarrow>
      (\<forall>i n. locate (rescind e T w) i n = locate w i n) \<and>
      (\<forall>n. queryE (rescind e T w) n = queryE w n) \<and>
      (\<forall>n. query (rescind e T w) n = query w n) \<and>
      (\<forall>n Us. queryN (rescind e T w) n Us = queryN w n Us) \<and>
      (\<forall>n Us. queryEN (rescind e T w) n Us = queryEN w n Us) \<and>
      (registry w T \<noteq> None \<longrightarrow> rescind e T w = w))"
proof -
  have absent: "locate (rescind e T w) e T = None"
    by (simp add: locate_rescind)
  have others: "\<forall>n. n \<noteq> T \<longrightarrow> registry (rescind e T w) n = registry w n"
    by (simp add: registry_rescind)
  have noop: "(\<forall>i n. locate (rescind e T w) i n = locate w i n) \<and>
      (\<forall>n. queryE (rescind e T w) n = queryE w n) \<and>
      (\<forall>n. query (rescind e T w) n = query w n) \<and>
      (\<forall>n Us. queryN (rescind e T w) n Us = queryN w n Us) \<and>
      (\<forall>n Us. queryEN (rescind e T w) n Us = queryEN w n Us) \<and>
      (registry w T \<noteq> None \<longrightarrow> rescind e T w = w)"
    if none: "locate w e T = None"
  proof -
    have loc: "locate (rescind e T w) i n = locate w i n" for i n
      using none by (simp add: locate_rescind)
    have loc': "locate (rescind e T w) = locate w"
      by (intro ext) (rule loc)
    have qe: "queryE (rescind e T w) n = queryE w n" for n
    proof (cases "registry w T")
      case None
      then show ?thesis
        by (simp add: queryE_def registry_rescind delete_empty impl_of_empty)
    next
      case (Some t)
      with none have "rescind e T w = w" by (simp add: rescind_absent_table)
      then show ?thesis by simp
    qed
    have q: "query (rescind e T w) n = query w n" for n
      by (simp add: query_queryE qe)
    have qn: "queryN (rescind e T w) n Us = queryN w n Us" for n Us
      by (simp add: queryN_queryE qe loc')
    have qen: "queryEN (rescind e T w) n Us = queryEN w n Us" for n Us
      by (simp add: queryEN_queryE qe loc')
    from loc qe q qn qen none show ?thesis
      by (simp add: rescind_absent_table)
  qed
  from absent others noop show ?thesis
    by (simp add: lastId_rescind)
qed

lemma rescind_effect_example:
  "locate (rescind 2 ''Dragged'' (register 1 Dragged World_new)) 2 ''Dragged'' = None \<and>
   locate (register 1 Dragged World_new) 2 ''Dragged'' = None \<and>
   registry (register 1 Dragged World_new) ''Dragged'' \<noteq> None \<and>
   registry (rescind 2 ''Dragged'' (register 1 Dragged World_new)) ''Position''
     = registry (register 1 Dragged World_new) ''Position'' \<and>
   rescind 2 ''Dragged'' (register 1 Dragged World_new) = register 1 Dragged World_new \<and>
   locate (rescind 2 ''Dragged'' (register 1 Dragged World_new)) 1 ''Dragged'' = Some Dragged"
  using rescind_effect [of 2 "''Dragged''" "register 1 Dragged World_new"]
  by (simp add: locate_register registry_register World_new_def locate_def)

text \<open>
  C9 at the failing input. On a new World no mapping \<open>(Dragged, 1)\<close> exists, and
  \<open>rescind(1, "Dragged")\<close> is not a no-op: it makes an empty table, so the World is not
  the one before, and \<open>queryUnique(Dragged)\<close>, which raised \<open>ComponentNotRegistered\<close>
  before, returns \<open>undefined\<close> after. The only method of the World that tells the two
  apart is \<open>queryUnique\<close>, by not raising on an empty table (see C1); the rest of the
  claim holds (\<open>rescind_effect\<close>).
\<close>

theorem rescind_absent_table_observed:
  "locate World_new 1 ''Dragged'' = None \<and>
   rescind 1 ''Dragged'' World_new \<noteq> World_new \<and>
   queryUnique World_new ''Dragged'' = Inl (ComponentNotRegistered ''Dragged'') \<and>
   queryUnique (rescind 1 ''Dragged'' World_new) ''Dragged'' = Inr None"
proof -
  have "registry (rescind 1 ''Dragged'' World_new) ''Dragged'' \<noteq> registry World_new ''Dragged''"
    by (simp add: registry_rescind World_new_def)
  then have "rescind 1 ''Dragged'' World_new \<noteq> World_new"
    by auto
  then show ?thesis
    by (simp add: queryUnique_def registry_rescind World_new_def locate_def
        delete_empty impl_of_empty)
qed

subsection \<open>queryUnique\<close>

lemma queryUnique_no_table:
  "registry w T = None \<Longrightarrow> queryUnique w T = Inl (ComponentNotRegistered T)"
  by (simp add: queryUnique_def)

lemma queryUnique_first:
  "queryE w T = (e, c) # rest \<Longrightarrow> queryUnique w T = Inr (Some c)"
  by (simp add: queryUnique_def queryE_def split: option.splits)

lemma queryUnique_raises_iff:
  "(\<exists>err. queryUnique w T = Inl err) \<longleftrightarrow> registry w T = None"
  by (simp add: queryUnique_def split: option.splits)

text \<open>
  C1 at the failing input. After \<open>register(1, new Dragged())\<close> and
  \<open>rescind(1, "Dragged")\<close> on a new World no instance of \<open>Dragged\<close> exists, and
  \<open>queryUnique(Dragged)\<close> returns \<open>undefined\<close> where the claim has it raise
  \<open>ComponentNotRegistered\<close>.
\<close>

theorem queryUnique_empty_table:
  "query (rescind 1 ''Dragged'' (register 1 Dragged World_new)) ''Dragged'' = [] \<and>
   queryUnique (rescind 1 ''Dragged'' (register 1 Dragged World_new)) ''Dragged'' = Inr None"
proof -
  have "DAList.impl_of (DAList.delete (1::int) (DAList.update 1 Dragged DAList.empty)) = []"
    by (simp add: DAList.delete.rep_eq DAList.update.rep_eq DAList.empty.rep_eq)
  then show ?thesis
    by (simp add: query_def queryUnique_def registry_rescind registry_register World_new_def)
qed

text \<open>
  C10. Where \<open>T\<close> has no table, \<open>queryUnique(T)\<close> raises \<open>ComponentNotRegistered\<close>; after
  \<open>rescind(e, T)\<close>, for any \<open>e\<close>, \<open>T\<close> has an empty table and \<open>queryUnique(T)\<close> returns
  \<open>undefined\<close> instead, although no instance of \<open>T\<close> exists before or after.
\<close>

theorem rescind_creates_empty_table:
  "registry w T = None \<Longrightarrow>
     queryUnique w T = Inl (ComponentNotRegistered T) \<and>
     registry (rescind e T w) T = Some DAList.empty \<and>
     queryUnique (rescind e T w) T = Inr None \<and>
     query w T = [] \<and>
     query (rescind e T w) T = []"
  by (simp add: queryUnique_def query_def registry_rescind delete_empty impl_of_empty)

theorem rescind_creates_empty_table_witness:
  "registry World_new ''Canvas'' = None \<and>
   queryUnique World_new ''Canvas'' = Inl (ComponentNotRegistered ''Canvas'') \<and>
   queryUnique (rescind 3 ''Canvas'' World_new) ''Canvas'' = Inr None \<and>
   query (rescind 3 ''Canvas'' World_new) ''Canvas'' = []"
proof -
  have none: "registry World_new ''Canvas'' = None"
    by (simp add: World_new_def)
  from rescind_creates_empty_table [OF none, of 3] none show ?thesis
    by simp
qed

subsection \<open>The join\<close>

text \<open>
  C3. The join on \<open>T\<close> with the other types \<open>Us\<close> visits the entities in the order of the
  table of \<open>T\<close>, each once, and they are the entities that have a \<open>T\<close>; the row of an
  entity is its \<open>T\<close> followed by what \<open>locate\<close> gives for each of \<open>Us\<close> (absent where the
  entity has none); \<open>queryN\<close> yields the rows of \<open>queryEN\<close> without the ids, one per
  entity that has a \<open>T\<close>; and with no table of \<open>T\<close> it yields nothing.
\<close>

theorem queryN_left_join:
  "map fst (queryEN w T Us) = map fst (queryE w T) \<and>
   distinct (map fst (queryEN w T Us)) \<and>
   set (map fst (queryEN w T Us)) = {e. locate w e T \<noteq> None} \<and>
   (\<forall>(e, row) \<in> set (queryEN w T Us).
      locate w e T \<noteq> None \<and> row = locate w e T # map (\<lambda>U. locate w e U) Us) \<and>
   queryN w T Us = map snd (queryEN w T Us) \<and>
   map hd (queryN w T Us) = map Some (query w T) \<and>
   length (queryN w T Us) = card {e. locate w e T \<noteq> None} \<and>
   (registry w T = None \<longrightarrow> queryN w T Us = [])"
proof -
  have keys: "map fst (queryEN w T Us) = map fst (queryE w T)"
    by (simp add: queryEN_queryE split_def comp_def)
  have dist: "distinct (map fst (queryEN w T Us))"
    by (simp add: keys distinct_queryE)
  have visited: "set (map fst (queryEN w T Us)) = {e. locate w e T \<noteq> None}"
    by (simp only: keys keys_queryE)
  have rows: "\<forall>(e, row) \<in> set (queryEN w T Us).
      locate w e T \<noteq> None \<and> row = locate w e T # map (\<lambda>U. locate w e U) Us"
  proof (clarify, rule conjI)
    fix e row
    assume mem: "(e, row) \<in> set (queryEN w T Us)"
    then obtain t where t: "(e, t) \<in> set (queryE w T)"
      and row: "row = Some t # map (locate w e) Us"
      by (auto simp add: queryEN_queryE)
    from t have "map_of (queryE w T) e = Some t"
      by (simp add: distinct_queryE)
    then have loc: "locate w e T = Some t"
      by (simp add: locate_eq_map_of_queryE)
    from loc show "locate w e T \<noteq> None" by simp
    from loc row show "row = locate w e T # map (\<lambda>U. locate w e U) Us" by simp
  qed
  have same: "queryN w T Us = map snd (queryEN w T Us)"
    by (simp add: queryN_queryE queryEN_queryE split_def comp_def)
  have heads: "map hd (queryN w T Us) = map Some (query w T)"
    by (simp add: queryN_queryE query_queryE split_def comp_def)
  have "length (queryN w T Us) = length (map fst (queryE w T))"
    by (simp add: queryN_queryE)
  also have "\<dots> = card (set (map fst (queryE w T)))"
    using distinct_queryE [of w T] by (simp only: distinct_card)
  finally have count: "length (queryN w T Us) = card {e. locate w e T \<noteq> None}"
    by (simp only: keys_queryE)
  have none: "registry w T = None \<longrightarrow> queryN w T Us = []"
    by (simp add: queryN_def)
  from keys dist visited rows same heads count none show ?thesis
    by blast
qed

theorem queryN_left_join_witness:
  "queryN (register 2 (Size (Vector2 1 1)) (register 1 (Label ''H'') World_new))
      ''Label'' [''Size''] = [[Some (Label ''H''), None]] \<and>
   queryEN (register 2 (Size (Vector2 1 1)) (register 1 (Label ''H'') World_new))
      ''Label'' [''Size''] = [(1, [Some (Label ''H''), None])] \<and>
   card {e. locate (register 2 (Size (Vector2 1 1)) (register 1 (Label ''H'') World_new))
              e ''Label'' \<noteq> None} = 1 \<and>
   registry World_new ''Label'' = None \<and>
   queryN World_new ''Label'' [''Size''] = []"
proof -
  let ?w = "register 2 (Size (Vector2 1 1)) (register 1 (Label ''H'') World_new)"
  have tbl: "queryE ?w ''Label'' = [(1, Label ''H'')]"
    by (simp add: queryE_def registry_register World_new_def
        DAList.update.rep_eq DAList.empty.rep_eq)
  have qn: "queryN ?w ''Label'' [''Size''] = [[Some (Label ''H''), None]]"
    by (simp add: queryN_queryE tbl locate_register)
       (simp add: locate_def World_new_def)
  have qen: "queryEN ?w ''Label'' [''Size''] = [(1, [Some (Label ''H''), None])]"
    by (simp add: queryEN_queryE tbl locate_register)
       (simp add: locate_def World_new_def)
  have none: "registry World_new ''Label'' = None"
    by (simp add: World_new_def)
  from queryN_left_join [of ?w "''Label''" "[''Size'']"] qn
  have one: "card {e. locate ?w e ''Label'' \<noteq> None} = 1"
    by simp
  from queryN_left_join [of World_new "''Label''" "[''Size'']"] none
  have empty: "queryN World_new ''Label'' [''Size''] = []"
    by blast
  from qn qen one none empty show ?thesis
    by (intro conjI)
qed

section \<open>The rounds of the loops, case by case\<close>

lemma onFrame_body_cases:
  "GridPositionSystem_onFrame_body (e, g) w =
     (if locate w e ''Dragged'' = None
      then (if \<exists>v. locate w e ''Position'' = Some (Position v)
            then (None, assign ''Position'' e (Position (Vector2 (column g * 64) (line g * 64))) w)
            else (Some TypeError, w))
      else (None, w))"
  by (simp add: GridPositionSystem_onFrame_body_def Let_def split: option.split Component.split)

lemma onFrame_body_dragged:
  "locate w e ''Dragged'' = Some d \<Longrightarrow> GridPositionSystem_onFrame_body (e, g) w = (None, w)"
  by (simp add: onFrame_body_cases)

lemma onFrame_body_snap:
  "locate w e ''Dragged'' = None \<Longrightarrow> locate w e ''Position'' = Some (Position u) \<Longrightarrow>
     GridPositionSystem_onFrame_body (e, g) w =
       (None, assign ''Position'' e (Position (Vector2 (column g * 64) (line g * 64))) w)"
  by (simp add: onFrame_body_cases)

lemma onFrame_body_throw:
  "locate w e ''Dragged'' = None \<Longrightarrow> locate w e ''Position'' = None \<Longrightarrow>
     GridPositionSystem_onFrame_body (e, g) w = (Some TypeError, w)"
  by (simp add: onFrame_body_cases)

lemma screenPosition_no_plane:
  "TileDragSystem_screenPosition frames (Some (Position p)) None = Inr p"
  by (simp add: TileDragSystem_screenPosition_def)

lemma screenPosition_plane:
  "frames pl = Some (DisplayFrame (Vector2 fx fy)) \<Longrightarrow>
     TileDragSystem_screenPosition frames (Some (Position (Vector2 px py))) (Some (DisplayPlane pl))
       = Inr (Vector2 (px - fx) (py - fy))"
  by (simp add: TileDragSystem_screenPosition_def)

lemma screenPosition_no_position:
  "TileDragSystem_screenPosition frames None cPlane = Inl TypeError"
  by (simp add: TileDragSystem_screenPosition_def split: option.split Component.split)

lemma onMouseDown_body_cases:
  "TileDragSystem_onMouseDown_body frames event (e, d) w =
     (case TileDragSystem_screenPosition frames (locate w e ''Position'') (locate w e ''DisplayPlane'') of
        Inl err \<Rightarrow> (Some err, w)
      | Inr position \<Rightarrow>
          (None, if contains (Rectangle_from position (Vector2 64 64))
                      (Vector2 (clientX event) (clientY event))
                 then register e Dragged w else w))"
  by (simp add: TileDragSystem_onMouseDown_body_def Let_def split: sum.split)

lemma onMouseUp_body_ok:
  assumes "locate w e ''Position'' = Some (Position (Vector2 px py))"
      and "locate w e ''GridPosition'' = Some g"
  shows "TileDragSystem_onMouseUp_body player (e, d) w =
     (case player of None \<Rightarrow> Some TypeError | Some _ \<Rightarrow> None,
      rescind e ''Dragged''
        (assign ''GridPosition'' e
           (GridPosition (of_int \<lfloor>(px + 32) / 64\<rfloor>) (of_int \<lfloor>(py + 32) / 64\<rfloor>)) w))"
  using assms by (simp add: TileDragSystem_onMouseUp_body_def Let_def split: option.split)

lemma onMouseUp_body_no_grid:
  assumes "locate w e ''GridPosition'' = None"
  shows "TileDragSystem_onMouseUp_body player (e, d) w = (Some TypeError, w)"
  using assms
  by (simp add: TileDragSystem_onMouseUp_body_def Let_def
      split: option.split Component.split Vector2.split)

lemma onMouseUp_body_no_position:
  assumes "\<nexists>v. locate w e ''Position'' = Some (Position v)"
  shows "TileDragSystem_onMouseUp_body player (e, d) w = (Some TypeError, w)"
proof (cases "locate w e ''Position''")
  case None
  then show ?thesis
    by (simp add: TileDragSystem_onMouseUp_body_def Let_def)
next
  case (Some c)
  with assms have "\<nexists>v. c = Position v" by simp
  with Some show ?thesis
    by (cases c) (simp_all add: TileDragSystem_onMouseUp_body_def Let_def)
qed

lemma onMouseUp_body_world:
  "snd (TileDragSystem_onMouseUp_body player (e, d) w) = w \<or>
   (\<exists>g. snd (TileDragSystem_onMouseUp_body player (e, d) w)
          = rescind e ''Dragged'' (assign ''GridPosition'' e g w))"
proof (cases "\<exists>v. locate w e ''Position'' = Some (Position v)")
  case False
  then show ?thesis by (simp add: onMouseUp_body_no_position)
next
  case True
  then obtain v where v: "locate w e ''Position'' = Some (Position v)" by blast
  obtain px py where "v = Vector2 px py" by (cases v)
  with v have pos: "locate w e ''Position'' = Some (Position (Vector2 px py))" by simp
  show ?thesis
  proof (cases "locate w e ''GridPosition''")
    case None
    then show ?thesis by (simp add: onMouseUp_body_no_grid)
  next
    case (Some g)
    show ?thesis
      by (rule disjI2, rule exI) (simp add: onMouseUp_body_ok [OF pos Some])
  qed
qed

section \<open>Entity ids\<close>

lemma lastId_fold_register: "lastId (fold (register e) cs w) = lastId w"
  by (induction cs arbitrary: w) (simp_all add: lastId_register)

lemma fst_entity: "fst (entity cs w) = lastId w + 1"
  by (simp add: entity_def Let_def)

lemma lastId_entity: "lastId (snd (entity cs w)) = lastId w + 1"
  by (simp add: entity_def Let_def lastId_fold_register)

lemma lastId_for_of:
  assumes "\<And>row v. lastId (snd (body row v)) = lastId v"
  shows "lastId (snd (for_of body rows w)) = lastId w"
proof (induction rows arbitrary: w)
  case Nil
  show ?case by simp
next
  case (Cons row rows)
  obtain r w' where step: "body row w = (r, w')" by (cases "body row w")
  with assms [of row w] have "lastId w' = lastId w" by simp
  with step Cons.IH [of w'] show ?case
    by (cases r) simp_all
qed

lemma lastId_onFrame: "lastId (snd (GridPositionSystem_onFrame w delta)) = lastId w"
  unfolding GridPositionSystem_onFrame_def
proof (rule lastId_for_of)
  fix row :: "EntityId \<times> Component" and v
  show "lastId (snd (GridPositionSystem_onFrame_body row v)) = lastId v"
    by (cases row) (simp add: onFrame_body_cases lastId_assign)
qed

lemma lastId_onMouseDown: "lastId (snd (TileDragSystem_onMouseDown w event)) = lastId w"
  unfolding TileDragSystem_onMouseDown_def Let_def
proof (rule lastId_for_of)
  fix row :: "EntityId \<times> Component" and v
  show "lastId (snd (TileDragSystem_onMouseDown_body (map_of (queryE w ''DisplayFrame''))
          event row v)) = lastId v"
    by (cases row) (simp add: onMouseDown_body_cases lastId_register split: sum.split)
qed

lemma lastId_onMouseUp: "lastId (snd (TileDragSystem_onMouseUp w event)) = lastId w"
proof (cases "queryUnique w ''PlayerProperties''")
  case (Inl err)
  then show ?thesis by (simp add: TileDragSystem_onMouseUp_def)
next
  case (Inr player)
  have "lastId (snd (for_of (TileDragSystem_onMouseUp_body player) rows w)) = lastId w" for rows
  proof (rule lastId_for_of)
    fix row :: "EntityId \<times> Component" and v
    obtain e d where row: "row = (e, d)" by (cases row)
    from onMouseUp_body_world [of player e d v]
    show "lastId (snd (TileDragSystem_onMouseUp_body player row v)) = lastId v"
      unfolding row by (auto simp add: lastId_rescind lastId_assign)
  qed
  with Inr show ?thesis by (simp add: TileDragSystem_onMouseUp_def)
qed

lemma call_lastId:
  "lastId (snd (call c w)) = (case c of Call_entity _ \<Rightarrow> lastId w + 1 | _ \<Rightarrow> lastId w)"
proof (cases c)
  case (Call_entity cs)
  obtain i w1 where e: "entity cs w = (i, w1)" by (cases "entity cs w")
  with lastId_entity [of cs w] Call_entity show ?thesis by simp
qed (simp_all add: lastId_register lastId_rescind lastId_onFrame lastId_onMouseDown
       lastId_onMouseUp)

lemma call_ids:
  "fst (call c w) = (case c of Call_entity _ \<Rightarrow> [lastId w + 1] | _ \<Rightarrow> [])"
proof (cases c)
  case (Call_entity cs)
  obtain i w1 where e: "entity cs w = (i, w1)" by (cases "entity cs w")
  with fst_entity [of cs w] Call_entity show ?thesis by simp
qed simp_all

lemma calls_ids:
  "sorted_wrt (<) (fst (calls cs w)) \<and>
   (\<forall>i \<in> set (fst (calls cs w)). lastId w < i \<and> i \<le> lastId (snd (calls cs w))) \<and>
   lastId w \<le> lastId (snd (calls cs w))"
proof (induction cs arbitrary: w)
  case Nil
  show ?case by simp
next
  case (Cons c cs)
  obtain ids w1 where c: "call c w = (ids, w1)" by (cases "call c w")
  obtain ids' w2 where cs: "calls cs w1 = (ids', w2)" by (cases "calls cs w1")
  from call_lastId [of c w] call_ids [of c w] c
  have w1: "lastId w \<le> lastId w1" and ids: "\<forall>i \<in> set ids. lastId w < i \<and> i \<le> lastId w1"
    by (cases c; simp)+
  from Cons.IH [of w1] cs
  have IH: "sorted_wrt (<) ids'" "\<forall>i \<in> set ids'. lastId w1 < i \<and> i \<le> lastId w2"
    "lastId w1 \<le> lastId w2"
    by simp_all
  have "sorted_wrt (<) ids"
    using call_ids [of c w] c by (cases c; simp)
  with IH ids have "sorted_wrt (<) (ids @ ids')"
    by (fastforce simp add: sorted_wrt_append)
  moreover have "\<forall>i \<in> set (ids @ ids'). lastId w < i \<and> i \<le> lastId w2"
    using ids IH w1 by fastforce
  moreover have "lastId w \<le> lastId w2"
    using w1 IH by simp
  ultimately show ?case
    by (simp add: c cs)
qed

lemma calls_entity_ids:
  "fst (calls (map Call_entity css) w) = [lastId w + 1 .. lastId w + int (length css)]"
proof (induction css arbitrary: w)
  case Nil
  show ?case by simp
next
  case (Cons cs css)
  obtain i w1 where e: "entity cs w = (i, w1)" by (cases "entity cs w")
  with fst_entity [of cs w] lastId_entity [of cs w]
  have i: "i = lastId w + 1" and w1: "lastId w1 = lastId w + 1" by simp_all
  have "[lastId w + 1 .. lastId w + int (length (cs # css))]
      = (lastId w + 1) # [lastId w + 1 + 1 .. lastId w + 1 + int (length css)]"
    by (subst upto_rec1) (simp_all add: algebra_simps)
  moreover obtain ids' w2 where "calls (map Call_entity css) w1 = (ids', w2)"
    by (cases "calls (map Call_entity css) w1")
  ultimately show ?case
    using Cons.IH [of w1] e i w1 by (simp add: algebra_simps)
qed

text \<open>
  C8. The entity ids that any sequence of calls on a new World returns are strictly
  increasing, so never repeated, and never 0; a sequence of \<open>n\<close> calls of \<open>entity\<close> alone
  returns 1, ..., \<open>n\<close>. No call lowers \<open>lastId\<close>, and \<open>entity\<close> returns \<open>lastId + 1\<close> and
  leaves it there.
\<close>

theorem entity_ids_increasing:
  "sorted_wrt (<) (fst (calls cs World_new)) \<and>
   distinct (fst (calls cs World_new)) \<and>
   0 \<notin> set (fst (calls cs World_new)) \<and>
   fst (calls (map Call_entity css) World_new) = [1 .. int (length css)] \<and>
   lastId w \<le> lastId (snd (call c w)) \<and>
   lastId w \<le> lastId (snd (calls cs w)) \<and>
   fst (entity components w) = lastId w + 1 \<and>
   lastId (snd (entity components w)) = lastId w + 1"
proof -
  from calls_ids [of cs World_new]
  have sorted: "sorted_wrt (<) (fst (calls cs World_new))"
    and pos: "\<forall>i \<in> set (fst (calls cs World_new)). 0 < i"
    by (simp_all add: World_new_def)
  from sorted have "distinct (fst (calls cs World_new))"
    by (simp add: strict_sorted_iff)
  moreover from pos have "0 \<notin> set (fst (calls cs World_new))"
    by auto
  moreover have "fst (calls (map Call_entity css) World_new) = [1 .. int (length css)]"
    by (simp add: calls_entity_ids World_new_def)
  moreover have "lastId w \<le> lastId (snd (call c w))"
    unfolding call_lastId by (cases c) simp_all
  moreover have "lastId w \<le> lastId (snd (calls cs w))"
    using calls_ids [of cs w] by simp
  ultimately show ?thesis
    using sorted by (simp add: fst_entity lastId_entity)
qed

theorem entity_ids_increasing_witness:
  "fst (calls [Call_entity [Draggable], Call_rescind 1 ''Draggable'', Call_entity []] World_new)
     = [1, 2] \<and>
   sorted_wrt (<)
     (fst (calls [Call_entity [Draggable], Call_rescind 1 ''Draggable'', Call_entity []] World_new)) \<and>
   fst (calls (map Call_entity [[Draggable], []]) World_new) = [1, 2]"
proof -
  let ?cs = "[Call_entity [Draggable], Call_rescind 1 ''Draggable'', Call_entity []]"
  have ids: "fst (calls ?cs World_new) = [1, 2]"
    by (simp add: entity_def Let_def lastId_register lastId_rescind World_new_def
        split: prod.split)
  have "[1 .. int (length [[Draggable], []::Component list])] = [1, 2]"
    by (simp add: upto_rec1)
  with entity_ids_increasing [of ?cs "[[Draggable], []]"] ids show ?thesis
    by simp
qed

section \<open>The coordinate transform\<close>

text \<open>
  C6. Without a plane, \<open>screenPosition\<close> returns the position as it is. With a plane
  whose entity has, in the frame table, a \<open>DisplayFrame\<close> of inner position \<open>f\<close>, it
  returns \<open>p - f\<close>, coordinate by coordinate. Both copies of the function do.
\<close>

theorem screenPosition_transform:
  "CanvasSystem_screenPosition frames (Some (Position p)) None = Inr p \<and>
   TileDragSystem_screenPosition frames (Some (Position p)) None = Inr p \<and>
   (frames plane = Some (DisplayFrame (Vector2 fx fy)) \<longrightarrow>
      CanvasSystem_screenPosition frames (Some (Position (Vector2 px py)))
          (Some (DisplayPlane plane)) = Inr (Vector2 (px - fx) (py - fy)) \<and>
      TileDragSystem_screenPosition frames (Some (Position (Vector2 px py)))
          (Some (DisplayPlane plane)) = Inr (Vector2 (px - fx) (py - fy)))"
  by (simp add: CanvasSystem_screenPosition_def TileDragSystem_screenPosition_def)

theorem screenPosition_transform_witness:
  "[1 \<mapsto> DisplayFrame (Vector2 50 0)] 1 = Some (DisplayFrame (Vector2 50 0)) \<and>
   CanvasSystem_screenPosition [1 \<mapsto> DisplayFrame (Vector2 50 0)]
      (Some (Position (Vector2 100 0))) (Some (DisplayPlane 1)) = Inr (Vector2 50 0) \<and>
   TileDragSystem_screenPosition [1 \<mapsto> DisplayFrame (Vector2 50 0)]
      (Some (Position (Vector2 100 0))) (Some (DisplayPlane 1)) = Inr (Vector2 50 0) \<and>
   TileDragSystem_screenPosition [1 \<mapsto> DisplayFrame (Vector2 50 0)]
      (Some (Position (Vector2 100 0))) None = Inr (Vector2 100 0)"
  using screenPosition_transform
    [of "[1 \<mapsto> DisplayFrame (Vector2 50 0)]" "Vector2 100 0" 1 50 0 100 0]
  by simp

section \<open>Rules for the loops\<close>

text \<open>
  The invariant \<open>I\<close> speaks of the rows already done and the current world. If every round
  that starts in the invariant ends without an exception and in the invariant, so does
  the loop.
\<close>

lemma for_of_rule:
  assumes init: "I [] w"
      and step: "\<And>prev row rest v. rows = prev @ row # rest \<Longrightarrow> I prev v \<Longrightarrow>
                   \<exists>v'. body row v = (None, v') \<and> I (prev @ [row]) v'"
  shows "\<exists>w'. for_of body rows w = (None, w') \<and> I rows w'"
proof -
  have "\<exists>w'. for_of body todo v = (None, w') \<and> I rows w'"
    if "rows = prev @ todo" and "I prev v" for prev todo v
    using that
  proof (induction todo arbitrary: prev v)
    case Nil
    then show ?case by simp
  next
    case (Cons row todo)
    from step [OF Cons.prems] obtain v'
      where round: "body row v = (None, v')" and inv: "I (prev @ [row]) v'"
      by blast
    from Cons.prems have "rows = (prev @ [row]) @ todo" by simp
    from Cons.IH [OF this inv] round show ?case by simp
  qed
  from this [of "[]" rows w] init show ?thesis by simp
qed

lemma for_of_unchanged:
  "(\<And>row. row \<in> set rows \<Longrightarrow> body row w = (None, w)) \<Longrightarrow> for_of body rows w = (None, w)"
  by (induction rows) simp_all

text \<open>What every round keeps, the loop keeps, also when a round throws.\<close>

lemma for_of_preserves:
  assumes "P w"
      and "\<And>row v. row \<in> set rows \<Longrightarrow> P v \<Longrightarrow> P (snd (body row v))"
  shows "P (snd (for_of body rows w))"
  using assms
proof (induction rows arbitrary: w)
  case Nil
  then show ?case by simp
next
  case (Cons row rows)
  obtain r w' where round: "body row w = (r, w')" by (cases "body row w")
  with Cons.prems(2) [of row w] Cons.prems(1) have w': "P w'" by simp
  show ?case
  proof (cases r)
    case None
    with round Cons.IH [OF w'] Cons.prems(2) show ?thesis by simp
  next
    case (Some err)
    with round w' show ?thesis by simp
  qed
qed

lemma locate_cong: "registry v n = registry w n \<Longrightarrow> locate v i n = locate w i n"
  by (simp add: locate_def)

lemma queryE_cong: "registry v n = registry w n \<Longrightarrow> queryE v n = queryE w n"
  by (simp add: queryE_def)

lemma queryE_mem_locate: "(e, c) \<in> set (queryE w T) \<longleftrightarrow> locate w e T = Some c"
  by (simp add: locate_eq_map_of_queryE distinct_queryE)

lemma map_entry_same:
  "map_of xs e = Some c \<Longrightarrow> AList.map_entry e (\<lambda>_. c) xs = xs"
  by (induction xs) (auto split: if_splits)

lemma assign_same: "locate w e T = Some c \<Longrightarrow> assign T e c w = w"
proof -
  assume loc: "locate w e T = Some c"
  then obtain t where t: "registry w T = Some t" and "DAList.lookup t e = Some c"
    by (auto simp add: locate_def split: option.splits)
  then have "AList.map_entry e (\<lambda>_. c) (DAList.impl_of t) = DAList.impl_of t"
    by (simp add: DAList.lookup.rep_eq map_entry_same)
  then have "DAList.map_entry e (\<lambda>_. c) t = t"
    by (simp add: DAList.alist_eq_iff DAList.map_entry.rep_eq)
  with t show ?thesis
    by (simp add: assign_def fun_upd_idem)
qed

lemma fresh_key: "distinct (map fst (prev @ (e, g) # rest)) \<Longrightarrow> e \<notin> fst ` set prev"
  by force

section \<open>GridPositionSystem.onFrame\<close>

lemma onFrame_loop:
  assumes rows: "rows = queryE w ''GridPosition''"
      and has_position: "\<forall>e. locate w e ''GridPosition'' \<noteq> None \<and> locate w e ''Dragged'' = None
             \<longrightarrow> (\<exists>v. locate w e ''Position'' = Some (Position v))"
  shows "\<exists>w'. for_of GridPositionSystem_onFrame_body rows w = (None, w') \<and>
           lastId w' = lastId w \<and>
           (\<forall>n. n \<noteq> ''Position'' \<longrightarrow> registry w' n = registry w n) \<and>
           (\<forall>e. e \<notin> fst ` set rows \<longrightarrow> locate w' e ''Position'' = locate w e ''Position'') \<and>
           (\<forall>e g. (e, g) \<in> set rows \<longrightarrow> locate w' e ''Position'' =
              (if locate w e ''Dragged'' = None
               then Some (Position (Vector2 (column g * 64) (line g * 64)))
               else locate w e ''Position''))"
proof -
  define I where "I prev v \<longleftrightarrow>
      lastId v = lastId w \<and>
      (\<forall>n. n \<noteq> ''Position'' \<longrightarrow> registry v n = registry w n) \<and>
      (\<forall>e. e \<notin> fst ` set prev \<longrightarrow> locate v e ''Position'' = locate w e ''Position'') \<and>
      (\<forall>(e, g) \<in> set prev. locate v e ''Position'' =
         (if locate w e ''Dragged'' = None
          then Some (Position (Vector2 (column g * 64) (line g * 64)))
          else locate w e ''Position''))"
    for prev :: "(EntityId \<times> Component) list" and v
  have init: "I [] w"
    by (simp add: I_def)
  have step: "\<exists>v'. GridPositionSystem_onFrame_body row v = (None, v') \<and> I (prev @ [row]) v'"
    if split: "rows = prev @ row # rest" and inv: "I prev v" for prev row rest v
  proof -
    obtain e g where row: "row = (e, g)" by (cases row)
    from rows split row have table: "queryE w ''GridPosition'' = prev @ (e, g) # rest"
      by simp
    from distinct_queryE [of w "''GridPosition''"]
    have "distinct (map fst (prev @ (e, g) # rest))"
      unfolding table .
    then have fresh: "e \<notin> fst ` set prev"
      by (rule fresh_key)
    have "(e, g) \<in> set (queryE w ''GridPosition'')"
      unfolding table by simp
    then have grid: "locate w e ''GridPosition'' = Some g"
      by (simp add: queryE_mem_locate)
    from inv have same: "\<And>n. n \<noteq> ''Position'' \<Longrightarrow> registry v n = registry w n"
      and id: "lastId v = lastId w"
      and untouched: "\<And>i. i \<notin> fst ` set prev \<Longrightarrow> locate v i ''Position'' = locate w i ''Position''"
      and snapped: "\<forall>(i, h) \<in> set prev. locate v i ''Position'' =
         (if locate w i ''Dragged'' = None
          then Some (Position (Vector2 (column h * 64) (line h * 64)))
          else locate w i ''Position'')"
      by (simp_all add: I_def)
    have dragged: "locate v e ''Dragged'' = locate w e ''Dragged''"
      by (rule locate_cong) (simp add: same)
    have position: "locate v e ''Position'' = locate w e ''Position''"
      using fresh by (rule untouched)
    show ?thesis
    proof (cases "locate w e ''Dragged'' = None")
      case False
      with dragged obtain d where "locate v e ''Dragged'' = Some d"
        by auto
      then have round: "GridPositionSystem_onFrame_body row v = (None, v)"
        unfolding row by (rule onFrame_body_dragged)
      have "I (prev @ [row]) v"
        unfolding I_def
      proof (intro conjI)
        show "lastId v = lastId w" by (rule id)
        show "\<forall>n. n \<noteq> ''Position'' \<longrightarrow> registry v n = registry w n"
          by (simp add: same)
        show "\<forall>i. i \<notin> fst ` set (prev @ [row]) \<longrightarrow>
                locate v i ''Position'' = locate w i ''Position''"
          by (simp add: untouched)
        show "\<forall>(i, h) \<in> set (prev @ [row]). locate v i ''Position'' =
           (if locate w i ''Dragged'' = None
            then Some (Position (Vector2 (column h * 64) (line h * 64)))
            else locate w i ''Position'')"
          using snapped False position by (auto simp add: row)
      qed
      with round show ?thesis by blast
    next
      case True
      with grid has_position obtain p where p: "locate w e ''Position'' = Some (Position p)"
        by blast
      let ?c = "Position (Vector2 (column g * 64) (line g * 64))"
      let ?v' = "assign ''Position'' e ?c v"
      from True dragged have "locate v e ''Dragged'' = None"
        by simp
      moreover from p position have "locate v e ''Position'' = Some (Position p)"
        by simp
      ultimately have round: "GridPositionSystem_onFrame_body row v = (None, ?v')"
        unfolding row by (rule onFrame_body_snap)
      have loc: "locate ?v' i ''Position'' = (if i = e then Some ?c else locate v i ''Position'')"
        for i
        using p position by (simp add: locate_assign)
      have "I (prev @ [row]) ?v'"
        unfolding I_def
      proof (intro conjI)
        show "lastId ?v' = lastId w" by (simp add: lastId_assign id)
        show "\<forall>n. n \<noteq> ''Position'' \<longrightarrow> registry ?v' n = registry w n"
          by (simp add: registry_assign same)
        show "\<forall>i. i \<notin> fst ` set (prev @ [row]) \<longrightarrow>
                locate ?v' i ''Position'' = locate w i ''Position''"
          by (simp add: loc row untouched)
        show "\<forall>(i, h) \<in> set (prev @ [row]). locate ?v' i ''Position'' =
           (if locate w i ''Dragged'' = None
            then Some (Position (Vector2 (column h * 64) (line h * 64)))
            else locate w i ''Position'')"
        proof (clarify)
          fix i h
          assume mem: "(i, h) \<in> set (prev @ [row])"
          show "locate ?v' i ''Position'' =
             (if locate w i ''Dragged'' = None
              then Some (Position (Vector2 (column h * 64) (line h * 64)))
              else locate w i ''Position'')"
          proof (cases "(i, h) \<in> set prev")
            case True
            with fresh have "i \<noteq> e" by force
            with True snapped show ?thesis by (auto simp add: loc)
          next
            case False
            with mem row have "i = e" "h = g" by simp_all
            with \<open>locate w e ''Dragged'' = None\<close> show ?thesis by (simp add: loc)
          qed
        qed
      qed
      with round show ?thesis by blast
    qed
  qed
  have "\<exists>w'. for_of GridPositionSystem_onFrame_body rows w = (None, w') \<and> I rows w'"
    by (rule for_of_rule [where I = I, OF init]) (rule step)
  then obtain w' where run: "for_of GridPositionSystem_onFrame_body rows w = (None, w')"
    and inv: "I rows w'"
    by blast
  from inv have id: "lastId w' = lastId w"
    and same: "\<forall>n. n \<noteq> ''Position'' \<longrightarrow> registry w' n = registry w n"
    and untouched: "\<forall>e. e \<notin> fst ` set rows \<longrightarrow>
          locate w' e ''Position'' = locate w e ''Position''"
    and all: "\<forall>(e, g) \<in> set rows. locate w' e ''Position'' =
              (if locate w e ''Dragged'' = None
               then Some (Position (Vector2 (column g * 64) (line g * 64)))
               else locate w e ''Position'')"
    by (simp_all add: I_def)
  from all have snapped: "\<forall>e g. (e, g) \<in> set rows \<longrightarrow> locate w' e ''Position'' =
              (if locate w e ''Dragged'' = None
               then Some (Position (Vector2 (column g * 64) (line g * 64)))
               else locate w e ''Position'')"
    by (simp only: Ball_def split_paired_All case_prod_conv)
  show ?thesis
    by (intro exI [of _ w'] conjI run id same untouched snapped)
qed

lemma locate_World_new: "locate World_new e n = None"
  by (simp add: locate_def World_new_def)

lemma queryE_World_new: "queryE World_new n = []"
  by (simp add: queryE_def World_new_def)

lemma queryE_register:
  "queryE (register e c w) n =
     (if n = constructor_name c then AList.update e c (queryE w n) else queryE w n)"
  by (simp add: queryE_def registry_register DAList.update.rep_eq DAList.empty.rep_eq
      split: option.splits)

lemma queryE_rescind:
  "queryE (rescind e T w) n = (if n = T then AList.delete e (queryE w n) else queryE w n)"
  by (simp add: queryE_def registry_rescind DAList.delete.rep_eq DAList.empty.rep_eq
      split: option.splits)

lemma onFrame_dragged_unchanged:
  assumes "locate w e ''Dragged'' \<noteq> None"
  shows "locate (snd (GridPositionSystem_onFrame w delta)) e ''Position'' = locate w e ''Position''"
proof -
  define P where "P v \<longleftrightarrow> registry v ''Dragged'' = registry w ''Dragged'' \<and>
      locate v e ''Position'' = locate w e ''Position''" for v
  have "P (snd (for_of GridPositionSystem_onFrame_body (queryE w ''GridPosition'') w))"
  proof (rule for_of_preserves)
    show "P w" by (simp add: P_def)
  next
    fix row :: "EntityId \<times> Component" and v
    assume v: "P v"
    obtain i g where row: "row = (i, g)" by (cases row)
    from v have "registry v ''Dragged'' = registry w ''Dragged''"
      by (simp add: P_def)
    then have dragged: "locate v e ''Dragged'' = locate w e ''Dragged''"
      by (rule locate_cong)
    show "P (snd (GridPositionSystem_onFrame_body row v))"
    proof (cases "locate v i ''Dragged'' = None \<and> (\<exists>u. locate v i ''Position'' = Some (Position u))")
      case False
      then have "snd (GridPositionSystem_onFrame_body row v) = v"
        by (auto simp add: row onFrame_body_cases)
      with v show ?thesis by simp
    next
      case True
      with dragged assms have "i \<noteq> e" by auto
      from True have "snd (GridPositionSystem_onFrame_body row v) =
          assign ''Position'' i (Position (Vector2 (column g * 64) (line g * 64))) v"
        by (auto simp add: row onFrame_body_cases)
      with v \<open>i \<noteq> e\<close> show ?thesis
        by (simp add: P_def registry_assign locate_assign)
    qed
  qed
  then show ?thesis
    by (simp add: P_def GridPositionSystem_onFrame_def)
qed

text \<open>
  C4 (as amended). An entity that carries \<open>Dragged\<close> keeps its \<open>Position\<close> through
  \<open>onFrame\<close>, in every World. In a World where every entity that has a \<open>GridPosition\<close> and
  does not carry \<open>Dragged\<close> has a \<open>Position\<close>, \<open>onFrame\<close> throws nothing; afterwards every
  entity with \<open>GridPosition(c, l)\<close> that does not carry \<open>Dragged\<close> has the \<open>Position\<close>
  \<open>(64c, 64l)\<close>, an entity without \<open>GridPosition\<close> has the \<open>Position\<close> it had, nothing but
  the \<open>Position\<close> table has changed, and a second \<open>onFrame\<close> changes nothing at all.
\<close>

theorem GridPositionSystem_onFrame_snaps:
  "(\<forall>e. locate w e ''Dragged'' \<noteq> None \<longrightarrow>
      locate (snd (GridPositionSystem_onFrame w delta)) e ''Position'' = locate w e ''Position'') \<and>
   ((\<forall>e. locate w e ''GridPosition'' \<noteq> None \<and> locate w e ''Dragged'' = None
          \<longrightarrow> (\<exists>v. locate w e ''Position'' = Some (Position v))) \<longrightarrow>
      fst (GridPositionSystem_onFrame w delta) = None \<and>
      (\<forall>e c l. locate w e ''GridPosition'' = Some (GridPosition c l) \<and>
               locate w e ''Dragged'' = None \<longrightarrow>
          locate (snd (GridPositionSystem_onFrame w delta)) e ''Position''
            = Some (Position (Vector2 (c * 64) (l * 64)))) \<and>
      (\<forall>e. locate w e ''GridPosition'' = None \<longrightarrow>
          locate (snd (GridPositionSystem_onFrame w delta)) e ''Position''
            = locate w e ''Position'') \<and>
      (\<forall>n. n \<noteq> ''Position'' \<longrightarrow>
          registry (snd (GridPositionSystem_onFrame w delta)) n = registry w n) \<and>
      lastId (snd (GridPositionSystem_onFrame w delta)) = lastId w \<and>
      GridPositionSystem_onFrame (snd (GridPositionSystem_onFrame w delta)) delta'
        = (None, snd (GridPositionSystem_onFrame w delta)))"
proof (intro conjI impI allI)
  fix e
  assume "locate w e ''Dragged'' \<noteq> None"
  then show "locate (snd (GridPositionSystem_onFrame w delta)) e ''Position''
      = locate w e ''Position''"
    by (rule onFrame_dragged_unchanged)
next
  assume has_position:
    "\<forall>e. locate w e ''GridPosition'' \<noteq> None \<and> locate w e ''Dragged'' = None
       \<longrightarrow> (\<exists>v. locate w e ''Position'' = Some (Position v))"
  let ?rows = "queryE w ''GridPosition''"
  from onFrame_loop [OF refl has_position] obtain w'
    where all: "for_of GridPositionSystem_onFrame_body ?rows w = (None, w') \<and>
           lastId w' = lastId w \<and>
           (\<forall>n. n \<noteq> ''Position'' \<longrightarrow> registry w' n = registry w n) \<and>
           (\<forall>e. e \<notin> fst ` set ?rows \<longrightarrow> locate w' e ''Position'' = locate w e ''Position'') \<and>
           (\<forall>e g. (e, g) \<in> set ?rows \<longrightarrow> locate w' e ''Position'' =
              (if locate w e ''Dragged'' = None
               then Some (Position (Vector2 (column g * 64) (line g * 64)))
               else locate w e ''Position''))" ..
  then have loop: "for_of GridPositionSystem_onFrame_body ?rows w = (None, w')"
    and id: "lastId w' = lastId w"
    and same: "\<And>n. n \<noteq> ''Position'' \<Longrightarrow> registry w' n = registry w n"
    and untouched: "\<And>e. e \<notin> fst ` set ?rows \<Longrightarrow>
          locate w' e ''Position'' = locate w e ''Position''"
    and snapped: "\<And>e g. (e, g) \<in> set ?rows \<Longrightarrow> locate w' e ''Position'' =
          (if locate w e ''Dragged'' = None
           then Some (Position (Vector2 (column g * 64) (line g * 64)))
           else locate w e ''Position'')"
    by simp_all
  from loop have run: "GridPositionSystem_onFrame w delta = (None, w')"
    by (simp add: GridPositionSystem_onFrame_def)
  show "fst (GridPositionSystem_onFrame w delta) = None"
    by (simp add: run)
  show "lastId (snd (GridPositionSystem_onFrame w delta)) = lastId w"
    by (simp add: run id)
  show "registry (snd (GridPositionSystem_onFrame w delta)) n = registry w n"
    if "n \<noteq> ''Position''" for n
    using that by (simp add: run same)
  show "locate (snd (GridPositionSystem_onFrame w delta)) e ''Position''
      = Some (Position (Vector2 (c * 64) (l * 64)))"
    if "locate w e ''GridPosition'' = Some (GridPosition c l) \<and> locate w e ''Dragged'' = None"
    for e c l
  proof -
    from that have "(e, GridPosition c l) \<in> set ?rows"
      by (simp add: queryE_mem_locate)
    from snapped [OF this] that show ?thesis
      by (simp add: run)
  qed
  show "locate (snd (GridPositionSystem_onFrame w delta)) e ''Position'' = locate w e ''Position''"
    if "locate w e ''GridPosition'' = None" for e
  proof -
    from that have "e \<notin> fst ` set ?rows"
      using keys_queryE [of w "''GridPosition''"] by auto
    then show ?thesis
      by (simp add: run untouched)
  qed
  have "for_of GridPositionSystem_onFrame_body ?rows w' = (None, w')"
  proof (rule for_of_unchanged)
    fix row
    assume mem: "row \<in> set ?rows"
    obtain e g where row: "row = (e, g)" by (cases row)
    have dragged: "locate w' e ''Dragged'' = locate w e ''Dragged''"
      by (rule locate_cong) (simp add: same)
    show "GridPositionSystem_onFrame_body row w' = (None, w')"
    proof (cases "locate w e ''Dragged''")
      case (Some d)
      with dragged show ?thesis
        by (simp add: row onFrame_body_dragged)
    next
      case None
      with snapped [of e g] mem row
      have at: "locate w' e ''Position''
          = Some (Position (Vector2 (column g * 64) (line g * 64)))"
        by simp
      from None dragged have "locate w' e ''Dragged'' = None" by simp
      from onFrame_body_snap [OF this at, of g] assign_same [OF at] show ?thesis
        by (simp add: row)
    qed
  qed
  moreover have "queryE w' ''GridPosition'' = ?rows"
    by (rule queryE_cong) (simp add: same)
  ultimately have "GridPositionSystem_onFrame w' delta' = (None, w')"
    by (simp add: GridPositionSystem_onFrame_def)
  then show "GridPositionSystem_onFrame (snd (GridPositionSystem_onFrame w delta)) delta'
      = (None, snd (GridPositionSystem_onFrame w delta))"
    by (simp add: run)
qed

theorem GridPositionSystem_onFrame_snaps_witness:
  "fst (GridPositionSystem_onFrame
          (register 1 (GridPosition 5 4) (register 1 (Position (Vector2 100 0)) World_new)) 0)
     = None \<and>
   locate (snd (GridPositionSystem_onFrame
          (register 1 (GridPosition 5 4) (register 1 (Position (Vector2 100 0)) World_new)) 0))
      1 ''Position'' = Some (Position (Vector2 320 256)) \<and>
   GridPositionSystem_onFrame (snd (GridPositionSystem_onFrame
          (register 1 (GridPosition 5 4) (register 1 (Position (Vector2 100 0)) World_new)) 0)) 0
     = (None, snd (GridPositionSystem_onFrame
          (register 1 (GridPosition 5 4) (register 1 (Position (Vector2 100 0)) World_new)) 0))"
proof -
  let ?w = "register 1 (GridPosition 5 4) (register 1 (Position (Vector2 100 0)) World_new)"
  have has_position: "\<forall>e. locate ?w e ''GridPosition'' \<noteq> None \<and> locate ?w e ''Dragged'' = None
      \<longrightarrow> (\<exists>v. locate ?w e ''Position'' = Some (Position v))"
    by (simp add: locate_register locate_World_new)
  have grid: "locate ?w 1 ''GridPosition'' = Some (GridPosition 5 4) \<and>
      locate ?w 1 ''Dragged'' = None"
    by (simp add: locate_register locate_World_new)
  from GridPositionSystem_onFrame_snaps [of ?w 0 0] has_position grid
  have "fst (GridPositionSystem_onFrame ?w 0) = None"
    and "locate (snd (GridPositionSystem_onFrame ?w 0)) 1 ''Position''
      = Some (Position (Vector2 (5 * 64) (4 * 64)))"
    and "GridPositionSystem_onFrame (snd (GridPositionSystem_onFrame ?w 0)) 0
      = (None, snd (GridPositionSystem_onFrame ?w 0))"
    by blast+
  then show ?thesis by simp
qed

text \<open>
  C4 as stated fails where an entity with a \<open>GridPosition\<close> has no \<open>Position\<close>: writing to
  its absent position throws and ends the loop. Here entity 1 is such an entity, and
  entity 2, after it in the table, has \<open>GridPosition(2, 2)\<close> and a \<open>Position\<close> and is not
  dragged, yet keeps the position \<open>(0, 0)\<close>.
\<close>

theorem GridPositionSystem_onFrame_counterexample:
  "locate (register 2 (Position (Vector2 0 0)) (register 2 (GridPosition 2 2)
      (register 1 (GridPosition 1 1) World_new))) 2 ''GridPosition'' = Some (GridPosition 2 2) \<and>
   locate (register 2 (Position (Vector2 0 0)) (register 2 (GridPosition 2 2)
      (register 1 (GridPosition 1 1) World_new))) 2 ''Position'' = Some (Position (Vector2 0 0)) \<and>
   locate (register 2 (Position (Vector2 0 0)) (register 2 (GridPosition 2 2)
      (register 1 (GridPosition 1 1) World_new))) 2 ''Dragged'' = None \<and>
   fst (GridPositionSystem_onFrame (register 2 (Position (Vector2 0 0))
      (register 2 (GridPosition 2 2) (register 1 (GridPosition 1 1) World_new))) 0)
     = Some TypeError \<and>
   locate (snd (GridPositionSystem_onFrame (register 2 (Position (Vector2 0 0))
      (register 2 (GridPosition 2 2) (register 1 (GridPosition 1 1) World_new))) 0))
      2 ''Position'' = Some (Position (Vector2 0 0)) \<and>
   Position (Vector2 0 0) \<noteq> Position (Vector2 (2 * 64) (2 * 64))"
proof -
  let ?w = "register 2 (Position (Vector2 0 0)) (register 2 (GridPosition 2 2)
      (register 1 (GridPosition 1 1) World_new))"
  have rows: "queryE ?w ''GridPosition'' = [(1, GridPosition 1 1), (2, GridPosition 2 2)]"
    by (simp add: queryE_register queryE_World_new)
  have "GridPositionSystem_onFrame_body (1, GridPosition 1 1) ?w = (Some TypeError, ?w)"
    by (rule onFrame_body_throw) (simp_all add: locate_register locate_World_new)
  then have "GridPositionSystem_onFrame ?w 0 = (Some TypeError, ?w)"
    by (simp add: GridPositionSystem_onFrame_def rows)
  then show ?thesis
    by (simp add: locate_register locate_World_new)
qed

section \<open>TileDragSystem.onMouseDown\<close>

lemma contains_tile:
  "contains (Rectangle_from (Vector2 x0 y0) (Vector2 64 64)) (Vector2 px py)
     \<longleftrightarrow> x0 < px \<and> px < x0 + 64 \<and> y0 < py \<and> py < y0 + 64"
  by auto

lemma frames_locate: "map_of (queryE w ''DisplayFrame'') e = locate w e ''DisplayFrame''"
  by (simp add: locate_eq_map_of_queryE)

lemma under_pointer_no_plane:
  assumes "locate w e ''Position'' = Some (Position (Vector2 x y))"
      and "locate w e ''DisplayPlane'' = None"
  shows "under_pointer w event e \<longleftrightarrow>
           x < clientX event \<and> clientX event < x + 64 \<and>
           y < clientY event \<and> clientY event < y + 64"
  using assms by (simp add: under_pointer_def screenPosition_no_plane)

lemma under_pointer_plane:
  assumes "locate w e ''Position'' = Some (Position (Vector2 x y))"
      and "locate w e ''DisplayPlane'' = Some (DisplayPlane pl)"
      and "locate w pl ''DisplayFrame'' = Some (DisplayFrame (Vector2 fx fy))"
  shows "under_pointer w event e \<longleftrightarrow>
           x - fx < clientX event \<and> clientX event < x - fx + 64 \<and>
           y - fy < clientY event \<and> clientY event < y - fy + 64"
proof -
  from assms(3) have "map_of (queryE w ''DisplayFrame'') pl = Some (DisplayFrame (Vector2 fx fy))"
    by (simp add: frames_locate)
  then have "TileDragSystem_screenPosition (map_of (queryE w ''DisplayFrame''))
      (Some (Position (Vector2 x y))) (Some (DisplayPlane pl)) = Inr (Vector2 (x - fx) (y - fy))"
    by (rule screenPosition_plane)
  with assms(1,2) show ?thesis
    by (simp add: under_pointer_def)
qed

lemma screenPosition_anchored:
  assumes "\<exists>p. cPosition = Some (Position p)"
      and "cPlane = None \<or>
           (\<exists>pl f. cPlane = Some (DisplayPlane pl) \<and> frames pl = Some (DisplayFrame f))"
  shows "\<exists>p. TileDragSystem_screenPosition frames cPosition cPlane = Inr p"
proof -
  from assms(1) obtain x y where pos: "cPosition = Some (Position (Vector2 x y))"
    by (metis Vector2.exhaust)
  from assms(2) show ?thesis
  proof
    assume "cPlane = None"
    with pos show ?thesis by (simp add: screenPosition_no_plane)
  next
    assume "\<exists>pl f. cPlane = Some (DisplayPlane pl) \<and> frames pl = Some (DisplayFrame f)"
    then obtain pl fx fy where "cPlane = Some (DisplayPlane pl)"
      and "frames pl = Some (DisplayFrame (Vector2 fx fy))"
      by (metis Vector2.exhaust)
    with pos show ?thesis by (simp add: screenPosition_plane)
  qed
qed

lemma onMouseDown_loop:
  assumes rows: "rows = queryE w ''Draggable''"
      and frames: "frames = map_of (queryE w ''DisplayFrame'')"
      and anchored: "\<forall>e. locate w e ''Draggable'' \<noteq> None \<longrightarrow>
            (\<exists>p. TileDragSystem_screenPosition frames
                    (locate w e ''Position'') (locate w e ''DisplayPlane'') = Inr p)"
  shows "\<exists>w'. for_of (TileDragSystem_onMouseDown_body frames event) rows w = (None, w') \<and>
           lastId w' = lastId w \<and>
           (\<forall>n. n \<noteq> ''Dragged'' \<longrightarrow> registry w' n = registry w n) \<and>
           (\<forall>e. locate w' e ''Dragged'' =
              (if e \<in> fst ` set rows \<and> under_pointer w event e
               then Some Dragged else locate w e ''Dragged''))"
proof -
  define I where "I prev v \<longleftrightarrow>
      lastId v = lastId w \<and>
      (\<forall>n. n \<noteq> ''Dragged'' \<longrightarrow> registry v n = registry w n) \<and>
      (\<forall>e. locate v e ''Dragged'' =
         (if e \<in> fst ` set prev \<and> under_pointer w event e
          then Some Dragged else locate w e ''Dragged''))"
    for prev :: "(EntityId \<times> Component) list" and v
  have init: "I [] w"
    by (simp add: I_def)
  have step: "\<exists>v'. TileDragSystem_onMouseDown_body frames event row v = (None, v') \<and>
                I (prev @ [row]) v'"
    if split: "rows = prev @ row # rest" and inv: "I prev v" for prev row rest v
  proof -
    obtain e d where row: "row = (e, d)" by (cases row)
    from rows split row have table: "queryE w ''Draggable'' = prev @ (e, d) # rest"
      by simp
    have "(e, d) \<in> set (queryE w ''Draggable'')"
      unfolding table by simp
    then have draggable: "locate w e ''Draggable'' \<noteq> None"
      by (simp add: queryE_mem_locate)
    from inv have same: "\<And>n. n \<noteq> ''Dragged'' \<Longrightarrow> registry v n = registry w n"
      and id: "lastId v = lastId w"
      and flags: "\<And>i. locate v i ''Dragged'' =
         (if i \<in> fst ` set prev \<and> under_pointer w event i
          then Some Dragged else locate w i ''Dragged'')"
      by (simp_all add: I_def)
    have position: "locate v e ''Position'' = locate w e ''Position''"
      by (rule locate_cong) (simp add: same)
    have plane: "locate v e ''DisplayPlane'' = locate w e ''DisplayPlane''"
      by (rule locate_cong) (simp add: same)
    from anchored draggable obtain x0 y0
      where screen: "TileDragSystem_screenPosition frames
          (locate w e ''Position'') (locate w e ''DisplayPlane'') = Inr (Vector2 x0 y0)"
      by (metis Vector2.exhaust)
    have hit: "under_pointer w event e \<longleftrightarrow>
        contains (Rectangle_from (Vector2 x0 y0) (Vector2 64 64))
          (Vector2 (clientX event) (clientY event))"
      using screen by (auto simp add: under_pointer_def frames contains_tile)
    let ?v' = "if under_pointer w event e then register e Dragged v else v"
    have round: "TileDragSystem_onMouseDown_body frames event row v = (None, ?v')"
      by (simp add: row onMouseDown_body_cases position plane screen hit)
    have "I (prev @ [row]) ?v'"
    proof (cases "under_pointer w event e")
      case True
      have "lastId (register e Dragged v) = lastId w"
        by (simp add: lastId_register id)
      moreover have "\<forall>n. n \<noteq> ''Dragged'' \<longrightarrow> registry (register e Dragged v) n = registry w n"
        by (simp add: registry_register same)
      moreover have "\<forall>i. locate (register e Dragged v) i ''Dragged'' =
         (if i \<in> fst ` set (prev @ [row]) \<and> under_pointer w event i
          then Some Dragged else locate w i ''Dragged'')"
        using True by (simp add: locate_register flags row)
      ultimately show ?thesis
        using True by (simp add: I_def)
    next
      case False
      have "\<forall>i. locate v i ''Dragged'' =
         (if i \<in> fst ` set (prev @ [row]) \<and> under_pointer w event i
          then Some Dragged else locate w i ''Dragged'')"
        using False by (auto simp add: flags row)
      with False id same show ?thesis
        by (simp add: I_def)
    qed
    with round show ?thesis by blast
  qed
  have "\<exists>w'. for_of (TileDragSystem_onMouseDown_body frames event) rows w = (None, w') \<and>
          I rows w'"
    by (rule for_of_rule [where I = I, OF init]) (rule step)
  then obtain w'
    where run: "for_of (TileDragSystem_onMouseDown_body frames event) rows w = (None, w')"
    and inv: "I rows w'"
    by blast
  from inv have id: "lastId w' = lastId w"
    and same: "\<forall>n. n \<noteq> ''Dragged'' \<longrightarrow> registry w' n = registry w n"
    and flags: "\<forall>e. locate w' e ''Dragged'' =
              (if e \<in> fst ` set rows \<and> under_pointer w event e
               then Some Dragged else locate w e ''Dragged'')"
    by (simp_all add: I_def)
  show ?thesis
    by (intro exI [of _ w'] conjI run id same flags)
qed

text \<open>
  C5 (as amended). In a World where every entity with \<open>Draggable\<close> has a \<open>Position\<close> and
  its \<open>DisplayPlane\<close>, if it has one, names an entity with a \<open>DisplayFrame\<close>,
  \<open>onMouseDown\<close> throws nothing and afterwards the entities with \<open>Draggable\<close> whose 64 by
  64 rectangle at their screen position strictly contains the pointer carry \<open>Dragged\<close>,
  all of them, and every other entity carries \<open>Dragged\<close> exactly if it did before;
  nothing but the \<open>Dragged\<close> table has changed. The first two parts say what the
  hit test is in coordinates, without and with a plane.
\<close>

theorem TileDragSystem_onMouseDown_flags:
  "(\<forall>e x y. locate w e ''Position'' = Some (Position (Vector2 x y)) \<and>
            locate w e ''DisplayPlane'' = None \<longrightarrow>
      (under_pointer w event e \<longleftrightarrow>
         x < clientX event \<and> clientX event < x + 64 \<and>
         y < clientY event \<and> clientY event < y + 64)) \<and>
   (\<forall>e x y pl fx fy. locate w e ''Position'' = Some (Position (Vector2 x y)) \<and>
            locate w e ''DisplayPlane'' = Some (DisplayPlane pl) \<and>
            locate w pl ''DisplayFrame'' = Some (DisplayFrame (Vector2 fx fy)) \<longrightarrow>
      (under_pointer w event e \<longleftrightarrow>
         x - fx < clientX event \<and> clientX event < x - fx + 64 \<and>
         y - fy < clientY event \<and> clientY event < y - fy + 64)) \<and>
   ((\<forall>e. locate w e ''Draggable'' \<noteq> None \<longrightarrow>
         (\<exists>p. locate w e ''Position'' = Some (Position p)) \<and>
         (locate w e ''DisplayPlane'' = None \<or>
          (\<exists>pl f. locate w e ''DisplayPlane'' = Some (DisplayPlane pl) \<and>
                  locate w pl ''DisplayFrame'' = Some (DisplayFrame f)))) \<longrightarrow>
      fst (TileDragSystem_onMouseDown w event) = None \<and>
      (\<forall>e. locate (snd (TileDragSystem_onMouseDown w event)) e ''Dragged'' =
         (if locate w e ''Draggable'' \<noteq> None \<and> under_pointer w event e
          then Some Dragged else locate w e ''Dragged'')) \<and>
      (\<forall>n. n \<noteq> ''Dragged'' \<longrightarrow>
         registry (snd (TileDragSystem_onMouseDown w event)) n = registry w n) \<and>
      lastId (snd (TileDragSystem_onMouseDown w event)) = lastId w)"
proof (intro conjI impI allI)
  fix e x y
  assume "locate w e ''Position'' = Some (Position (Vector2 x y)) \<and>
      locate w e ''DisplayPlane'' = None"
  then show "under_pointer w event e \<longleftrightarrow>
      x < clientX event \<and> clientX event < x + 64 \<and> y < clientY event \<and> clientY event < y + 64"
    by (simp add: under_pointer_no_plane)
next
  fix e x y pl fx fy
  assume "locate w e ''Position'' = Some (Position (Vector2 x y)) \<and>
      locate w e ''DisplayPlane'' = Some (DisplayPlane pl) \<and>
      locate w pl ''DisplayFrame'' = Some (DisplayFrame (Vector2 fx fy))"
  then show "under_pointer w event e \<longleftrightarrow>
      x - fx < clientX event \<and> clientX event < x - fx + 64 \<and>
      y - fy < clientY event \<and> clientY event < y - fy + 64"
    by (simp add: under_pointer_plane)
next
  assume complete: "\<forall>e. locate w e ''Draggable'' \<noteq> None \<longrightarrow>
         (\<exists>p. locate w e ''Position'' = Some (Position p)) \<and>
         (locate w e ''DisplayPlane'' = None \<or>
          (\<exists>pl f. locate w e ''DisplayPlane'' = Some (DisplayPlane pl) \<and>
                  locate w pl ''DisplayFrame'' = Some (DisplayFrame f)))"
  let ?frames = "map_of (queryE w ''DisplayFrame'')"
  let ?rows = "queryE w ''Draggable''"
  have anchored: "\<forall>e. locate w e ''Draggable'' \<noteq> None \<longrightarrow>
      (\<exists>p. TileDragSystem_screenPosition ?frames
              (locate w e ''Position'') (locate w e ''DisplayPlane'') = Inr p)"
  proof (intro allI impI)
    fix e
    assume "locate w e ''Draggable'' \<noteq> None"
    with complete have "\<exists>p. locate w e ''Position'' = Some (Position p)"
      and "locate w e ''DisplayPlane'' = None \<or>
          (\<exists>pl f. locate w e ''DisplayPlane'' = Some (DisplayPlane pl) \<and>
                  ?frames pl = Some (DisplayFrame f))"
      by (simp_all add: frames_locate)
    then show "\<exists>p. TileDragSystem_screenPosition ?frames
              (locate w e ''Position'') (locate w e ''DisplayPlane'') = Inr p"
      by (rule screenPosition_anchored)
  qed
  from onMouseDown_loop [OF refl refl anchored, of event] obtain w'
    where all: "for_of (TileDragSystem_onMouseDown_body ?frames event) ?rows w = (None, w') \<and>
           lastId w' = lastId w \<and>
           (\<forall>n. n \<noteq> ''Dragged'' \<longrightarrow> registry w' n = registry w n) \<and>
           (\<forall>e. locate w' e ''Dragged'' =
              (if e \<in> fst ` set ?rows \<and> under_pointer w event e
               then Some Dragged else locate w e ''Dragged''))" ..
  then have run: "TileDragSystem_onMouseDown w event = (None, w')"
    by (simp add: TileDragSystem_onMouseDown_def)
  have keys: "e \<in> fst ` set ?rows \<longleftrightarrow> locate w e ''Draggable'' \<noteq> None" for e
    using keys_queryE [of w "''Draggable''"] by auto
  show "fst (TileDragSystem_onMouseDown w event) = None"
    by (simp add: run)
  show "lastId (snd (TileDragSystem_onMouseDown w event)) = lastId w"
    using all by (simp add: run)
  show "registry (snd (TileDragSystem_onMouseDown w event)) n = registry w n"
    if "n \<noteq> ''Dragged''" for n
    using all that by (simp add: run)
  show "locate (snd (TileDragSystem_onMouseDown w event)) e ''Dragged'' =
         (if locate w e ''Draggable'' \<noteq> None \<and> under_pointer w event e
          then Some Dragged else locate w e ''Dragged'')" for e
    using all keys [of e] by (simp add: run)
qed

theorem TileDragSystem_onMouseDown_flags_witness:
  "fst (TileDragSystem_onMouseDown
     (register 4 Draggable (register 4 (Position (Vector2 0 0))
     (register 3 Draggable (register 3 (Position (Vector2 300 250))
     (register 2 Draggable (register 2 (DisplayPlane 1) (register 2 (Position (Vector2 320 256))
     (register 1 (DisplayFrame (Vector2 50 0)) World_new))))))))
     \<lparr>clientX = 310, clientY = 260\<rparr>) = None \<and>
   map (\<lambda>e. locate (snd (TileDragSystem_onMouseDown
     (register 4 Draggable (register 4 (Position (Vector2 0 0))
     (register 3 Draggable (register 3 (Position (Vector2 300 250))
     (register 2 Draggable (register 2 (DisplayPlane 1) (register 2 (Position (Vector2 320 256))
     (register 1 (DisplayFrame (Vector2 50 0)) World_new))))))))
     \<lparr>clientX = 310, clientY = 260\<rparr>)) e ''Dragged'') [1, 2, 3, 4]
     = [None, Some Dragged, Some Dragged, None]"
proof -
  let ?w = "register 4 Draggable (register 4 (Position (Vector2 0 0))
     (register 3 Draggable (register 3 (Position (Vector2 300 250))
     (register 2 Draggable (register 2 (DisplayPlane 1) (register 2 (Position (Vector2 320 256))
     (register 1 (DisplayFrame (Vector2 50 0)) World_new)))))))"
  let ?ev = "\<lparr>clientX = 310, clientY = 260\<rparr>"
  have draggable: "locate ?w e ''Draggable'' \<noteq> None \<longleftrightarrow> e = 2 \<or> e = 3 \<or> e = 4" for e
    by (simp add: locate_register locate_World_new)
  have complete: "\<forall>e. locate ?w e ''Draggable'' \<noteq> None \<longrightarrow>
         (\<exists>p. locate ?w e ''Position'' = Some (Position p)) \<and>
         (locate ?w e ''DisplayPlane'' = None \<or>
          (\<exists>pl f. locate ?w e ''DisplayPlane'' = Some (DisplayPlane pl) \<and>
                  locate ?w pl ''DisplayFrame'' = Some (DisplayFrame f)))"
    unfolding draggable by (auto simp add: locate_register locate_World_new)
  have hit2: "under_pointer ?w ?ev 2"
    by (subst under_pointer_plane [of _ _ 320 256 1 50 0])
       (simp_all add: locate_register locate_World_new)
  have hit3: "under_pointer ?w ?ev 3"
    by (subst under_pointer_no_plane [of _ _ 300 250])
       (simp_all add: locate_register locate_World_new)
  have miss4: "\<not> under_pointer ?w ?ev 4"
    by (subst under_pointer_no_plane [of _ _ 0 0])
       (simp_all add: locate_register locate_World_new)
  have before: "locate ?w e ''Dragged'' = None" for e
    by (simp add: locate_register locate_World_new)
  from TileDragSystem_onMouseDown_flags [of ?w ?ev] complete
  have none: "fst (TileDragSystem_onMouseDown ?w ?ev) = None"
    and flags: "\<And>e. locate (snd (TileDragSystem_onMouseDown ?w ?ev)) e ''Dragged'' =
         (if locate ?w e ''Draggable'' \<noteq> None \<and> under_pointer ?w ?ev e
          then Some Dragged else locate ?w e ''Dragged'')"
    by blast+
  have tiles: "locate ?w 1 ''Draggable'' = None" "locate ?w 2 ''Draggable'' = Some Draggable"
    "locate ?w 3 ''Draggable'' = Some Draggable" "locate ?w 4 ''Draggable'' = Some Draggable"
    by (simp_all add: locate_register locate_World_new)
  show ?thesis
    by (simp add: none flags tiles hit2 hit3 miss4 before)
qed

text \<open>
  C5 as stated fails where an entity with \<open>Draggable\<close> has no \<open>Position\<close>: reading its
  absent position throws and ends the loop. Here entity 1 is such an entity; entity 2,
  after it in the table, has \<open>Draggable\<close> and a \<open>Position\<close> whose rectangle contains the
  pointer, and does not receive \<open>Dragged\<close>.
\<close>

theorem TileDragSystem_onMouseDown_counterexample:
  "locate (register 2 (Position (Vector2 0 0)) (register 2 Draggable
      (register 1 Draggable World_new))) 2 ''Draggable'' = Some Draggable \<and>
   under_pointer (register 2 (Position (Vector2 0 0)) (register 2 Draggable
      (register 1 Draggable World_new))) \<lparr>clientX = 10, clientY = 10\<rparr> 2 \<and>
   fst (TileDragSystem_onMouseDown (register 2 (Position (Vector2 0 0))
      (register 2 Draggable (register 1 Draggable World_new)))
      \<lparr>clientX = 10, clientY = 10\<rparr>) = Some TypeError \<and>
   locate (snd (TileDragSystem_onMouseDown (register 2 (Position (Vector2 0 0))
      (register 2 Draggable (register 1 Draggable World_new)))
      \<lparr>clientX = 10, clientY = 10\<rparr>)) 2 ''Dragged'' = None"
proof -
  let ?w = "register 2 (Position (Vector2 0 0)) (register 2 Draggable
      (register 1 Draggable World_new))"
  let ?ev = "\<lparr>clientX = 10, clientY = 10\<rparr>"
  have rows: "queryE ?w ''Draggable'' = [(1, Draggable), (2, Draggable)]"
    by (simp add: queryE_register queryE_World_new)
  have hit: "under_pointer ?w ?ev 2"
    by (subst under_pointer_no_plane [of _ _ 0 0])
       (simp_all add: locate_register locate_World_new)
  have "locate ?w 1 ''Position'' = None"
    by (simp add: locate_register locate_World_new)
  then have "TileDragSystem_onMouseDown_body (map_of (queryE ?w ''DisplayFrame'')) ?ev
      (1, Draggable) ?w = (Some TypeError, ?w)"
    by (simp add: onMouseDown_body_cases screenPosition_no_position)
  then have "TileDragSystem_onMouseDown ?w ?ev = (Some TypeError, ?w)"
    by (simp add: TileDragSystem_onMouseDown_def rows)
  with hit show ?thesis
    by (simp add: locate_register locate_World_new)
qed

section \<open>TileDragSystem.onMouseUp\<close>

lemma queryE_empty_iff: "queryE w T = [] \<longleftrightarrow> (\<forall>e. locate w e T = None)"
proof
  assume "queryE w T = []"
  then show "\<forall>e. locate w e T = None"
    by (simp add: locate_eq_map_of_queryE)
next
  assume none: "\<forall>e. locate w e T = None"
  show "queryE w T = []"
  proof (cases "queryE w T")
    case Nil
    then show ?thesis .
  next
    case (Cons row rows)
    obtain e c where "row = (e, c)" by (cases row)
    with Cons have "locate w e T = Some c"
      by (simp add: locate_eq_map_of_queryE)
    with none show ?thesis by simp
  qed
qed

lemma onMouseUp_loop:
  assumes rows: "rows = queryE w ''Dragged''"
      and complete: "\<forall>e. locate w e ''Dragged'' \<noteq> None \<longrightarrow>
            (\<exists>v. locate w e ''Position'' = Some (Position v)) \<and>
            (\<exists>c l. locate w e ''GridPosition'' = Some (GridPosition c l))"
  shows "\<exists>w'. for_of (TileDragSystem_onMouseUp_body (Some player)) rows w = (None, w') \<and>
           lastId w' = lastId w \<and>
           (\<forall>n. n \<noteq> ''GridPosition'' \<and> n \<noteq> ''Dragged'' \<longrightarrow> registry w' n = registry w n) \<and>
           (\<forall>e. locate w' e ''Dragged'' =
              (if e \<in> fst ` set rows then None else locate w e ''Dragged'')) \<and>
           (\<forall>e. e \<notin> fst ` set rows \<longrightarrow>
              locate w' e ''GridPosition'' = locate w e ''GridPosition'') \<and>
           (\<forall>e x y. e \<in> fst ` set rows \<and> locate w e ''Position'' = Some (Position (Vector2 x y))
              \<longrightarrow> locate w' e ''GridPosition'' =
                    Some (GridPosition (of_int \<lfloor>(x + 32) / 64\<rfloor>) (of_int \<lfloor>(y + 32) / 64\<rfloor>)))"
proof -
  define I where "I prev v \<longleftrightarrow>
      lastId v = lastId w \<and>
      (\<forall>n. n \<noteq> ''GridPosition'' \<and> n \<noteq> ''Dragged'' \<longrightarrow> registry v n = registry w n) \<and>
      (\<forall>e. locate v e ''Dragged'' =
         (if e \<in> fst ` set prev then None else locate w e ''Dragged'')) \<and>
      (\<forall>e. e \<notin> fst ` set prev \<longrightarrow> locate v e ''GridPosition'' = locate w e ''GridPosition'') \<and>
      (\<forall>e x y. e \<in> fst ` set prev \<and> locate w e ''Position'' = Some (Position (Vector2 x y))
         \<longrightarrow> locate v e ''GridPosition'' =
               Some (GridPosition (of_int \<lfloor>(x + 32) / 64\<rfloor>) (of_int \<lfloor>(y + 32) / 64\<rfloor>)))"
    for prev :: "(EntityId \<times> Component) list" and v
  have init: "I [] w"
    by (simp add: I_def)
  have step: "\<exists>v'. TileDragSystem_onMouseUp_body (Some player) row v = (None, v') \<and>
                I (prev @ [row]) v'"
    if split: "rows = prev @ row # rest" and inv: "I prev v" for prev row rest v
  proof -
    obtain e d where row: "row = (e, d)" by (cases row)
    from rows split row have table: "queryE w ''Dragged'' = prev @ (e, d) # rest"
      by simp
    from distinct_queryE [of w "''Dragged''"]
    have "distinct (map fst (prev @ (e, d) # rest))"
      unfolding table .
    then have fresh: "e \<notin> fst ` set prev"
      by (rule fresh_key)
    have "(e, d) \<in> set (queryE w ''Dragged'')"
      unfolding table by simp
    then have "locate w e ''Dragged'' \<noteq> None"
      by (simp add: queryE_mem_locate)
    with complete obtain x y c l
      where pos: "locate w e ''Position'' = Some (Position (Vector2 x y))"
        and grid: "locate w e ''GridPosition'' = Some (GridPosition c l)"
      by (metis Vector2.exhaust)
    from inv have id: "lastId v = lastId w"
      and same: "\<And>n. n \<noteq> ''GridPosition'' \<and> n \<noteq> ''Dragged'' \<Longrightarrow> registry v n = registry w n"
      and dragged: "\<And>i. locate v i ''Dragged'' =
         (if i \<in> fst ` set prev then None else locate w i ''Dragged'')"
      and untouched: "\<And>i. i \<notin> fst ` set prev \<Longrightarrow>
         locate v i ''GridPosition'' = locate w i ''GridPosition''"
      and snapped: "\<And>i a b. i \<in> fst ` set prev \<and>
            locate w i ''Position'' = Some (Position (Vector2 a b)) \<Longrightarrow>
         locate v i ''GridPosition'' =
           Some (GridPosition (of_int \<lfloor>(a + 32) / 64\<rfloor>) (of_int \<lfloor>(b + 32) / 64\<rfloor>))"
      by (simp_all add: I_def)
    have "locate v e ''Position'' = locate w e ''Position''"
      by (rule locate_cong) (simp add: same)
    with pos have pos': "locate v e ''Position'' = Some (Position (Vector2 x y))"
      by simp
    from untouched [OF fresh] grid
    have grid': "locate v e ''GridPosition'' = Some (GridPosition c l)"
      by simp
    let ?g = "GridPosition (of_int \<lfloor>(x + 32) / 64\<rfloor>) (of_int \<lfloor>(y + 32) / 64\<rfloor>)"
    let ?v' = "rescind e ''Dragged'' (assign ''GridPosition'' e ?g v)"
    have round: "TileDragSystem_onMouseUp_body (Some player) row v = (None, ?v')"
      unfolding row by (simp add: onMouseUp_body_ok [OF pos' grid'])
    have loc_dragged: "locate ?v' i ''Dragged'' = (if i = e then None else locate v i ''Dragged'')"
      for i
      by (simp add: locate_rescind locate_assign)
    have loc_grid: "locate ?v' i ''GridPosition'' =
        (if i = e then Some ?g else locate v i ''GridPosition'')" for i
      using grid' by (simp add: locate_rescind locate_assign)
    have "I (prev @ [row]) ?v'"
      unfolding I_def
    proof (intro conjI)
      show "lastId ?v' = lastId w"
        by (simp add: lastId_rescind lastId_assign id)
      show "\<forall>n. n \<noteq> ''GridPosition'' \<and> n \<noteq> ''Dragged'' \<longrightarrow> registry ?v' n = registry w n"
        by (simp add: registry_rescind registry_assign same)
      show "\<forall>i. locate ?v' i ''Dragged'' =
          (if i \<in> fst ` set (prev @ [row]) then None else locate w i ''Dragged'')"
        by (simp add: loc_dragged dragged row)
      show "\<forall>i. i \<notin> fst ` set (prev @ [row]) \<longrightarrow>
          locate ?v' i ''GridPosition'' = locate w i ''GridPosition''"
        by (simp add: loc_grid untouched row)
      show "\<forall>i a b. i \<in> fst ` set (prev @ [row]) \<and>
            locate w i ''Position'' = Some (Position (Vector2 a b))
          \<longrightarrow> locate ?v' i ''GridPosition'' =
                Some (GridPosition (of_int \<lfloor>(a + 32) / 64\<rfloor>) (of_int \<lfloor>(b + 32) / 64\<rfloor>))"
      proof (intro allI impI)
        fix i a b
        assume i: "i \<in> fst ` set (prev @ [row]) \<and>
            locate w i ''Position'' = Some (Position (Vector2 a b))"
        show "locate ?v' i ''GridPosition'' =
            Some (GridPosition (of_int \<lfloor>(a + 32) / 64\<rfloor>) (of_int \<lfloor>(b + 32) / 64\<rfloor>))"
        proof (cases "i = e")
          case True
          with i pos have "a = x" "b = y" by simp_all
          with True show ?thesis by (simp add: loc_grid)
        next
          case False
          with i row have "i \<in> fst ` set prev" by auto
          with i snapped [of i a b] False show ?thesis
            by (simp add: loc_grid)
        qed
      qed
    qed
    with round show ?thesis by blast
  qed
  have "\<exists>w'. for_of (TileDragSystem_onMouseUp_body (Some player)) rows w = (None, w') \<and>
          I rows w'"
    by (rule for_of_rule [where I = I, OF init]) (rule step)
  then obtain w'
    where run: "for_of (TileDragSystem_onMouseUp_body (Some player)) rows w = (None, w')"
    and inv: "I rows w'"
    by blast
  from inv have id: "lastId w' = lastId w"
    and same: "\<forall>n. n \<noteq> ''GridPosition'' \<and> n \<noteq> ''Dragged'' \<longrightarrow> registry w' n = registry w n"
    and dragged: "\<forall>e. locate w' e ''Dragged'' =
              (if e \<in> fst ` set rows then None else locate w e ''Dragged'')"
    and untouched: "\<forall>e. e \<notin> fst ` set rows \<longrightarrow>
              locate w' e ''GridPosition'' = locate w e ''GridPosition''"
    and snapped: "\<forall>e x y. e \<in> fst ` set rows \<and>
              locate w e ''Position'' = Some (Position (Vector2 x y))
              \<longrightarrow> locate w' e ''GridPosition'' =
                    Some (GridPosition (of_int \<lfloor>(x + 32) / 64\<rfloor>) (of_int \<lfloor>(y + 32) / 64\<rfloor>))"
    by (simp_all add: I_def)
  show ?thesis
    by (intro exI [of _ w'] conjI run id same dragged untouched snapped)
qed

text \<open>
  C2 (as amended). In a World with a \<open>PlayerProperties\<close> instance where no entity carries
  \<open>Dragged\<close>, \<open>onMouseUp\<close> throws nothing and leaves the World as it is. In a World
  with a \<open>PlayerProperties\<close> instance where every entity that carries \<open>Dragged\<close> has a
  \<open>Position\<close> and a \<open>GridPosition\<close>, \<open>onMouseUp\<close> throws nothing; afterwards every entity
  that carried \<open>Dragged\<close>, with \<open>Position (x, y)\<close>, has the \<open>GridPosition\<close>
  \<open>(floor((x + 32) / 64), floor((y + 32) / 64))\<close>, no entity carries \<open>Dragged\<close>, the
  other entities have the \<open>GridPosition\<close> they had, and no other table has changed.
\<close>

theorem TileDragSystem_onMouseUp_snaps:
  "((\<exists>p. queryUnique w ''PlayerProperties'' = Inr (Some p)) \<and>
    (\<forall>e. locate w e ''Dragged'' = None) \<longrightarrow>
      TileDragSystem_onMouseUp w event = (None, w)) \<and>
   ((\<exists>p. queryUnique w ''PlayerProperties'' = Inr (Some p)) \<and>
    (\<forall>e. locate w e ''Dragged'' \<noteq> None \<longrightarrow>
         (\<exists>v. locate w e ''Position'' = Some (Position v)) \<and>
         (\<exists>c l. locate w e ''GridPosition'' = Some (GridPosition c l))) \<longrightarrow>
      fst (TileDragSystem_onMouseUp w event) = None \<and>
      (\<forall>e x y. locate w e ''Dragged'' \<noteq> None \<and>
               locate w e ''Position'' = Some (Position (Vector2 x y)) \<longrightarrow>
         locate (snd (TileDragSystem_onMouseUp w event)) e ''GridPosition'' =
           Some (GridPosition (of_int \<lfloor>(x + 32) / 64\<rfloor>) (of_int \<lfloor>(y + 32) / 64\<rfloor>))) \<and>
      (\<forall>e. locate (snd (TileDragSystem_onMouseUp w event)) e ''Dragged'' = None) \<and>
      (\<forall>e. locate w e ''Dragged'' = None \<longrightarrow>
         locate (snd (TileDragSystem_onMouseUp w event)) e ''GridPosition''
           = locate w e ''GridPosition'') \<and>
      (\<forall>n. n \<noteq> ''GridPosition'' \<and> n \<noteq> ''Dragged'' \<longrightarrow>
         registry (snd (TileDragSystem_onMouseUp w event)) n = registry w n) \<and>
      lastId (snd (TileDragSystem_onMouseUp w event)) = lastId w)"
proof (intro conjI impI)
  assume idle: "(\<exists>p. queryUnique w ''PlayerProperties'' = Inr (Some p)) \<and>
      (\<forall>e. locate w e ''Dragged'' = None)"
  then obtain player where "queryUnique w ''PlayerProperties'' = Inr (Some player)"
    by blast
  moreover from idle have "queryE w ''Dragged'' = []"
    by (simp add: queryE_empty_iff)
  ultimately show "TileDragSystem_onMouseUp w event = (None, w)"
    by (simp add: TileDragSystem_onMouseUp_def)
next
  assume ready: "(\<exists>p. queryUnique w ''PlayerProperties'' = Inr (Some p)) \<and>
    (\<forall>e. locate w e ''Dragged'' \<noteq> None \<longrightarrow>
         (\<exists>v. locate w e ''Position'' = Some (Position v)) \<and>
         (\<exists>c l. locate w e ''GridPosition'' = Some (GridPosition c l)))"
  then obtain player where player: "queryUnique w ''PlayerProperties'' = Inr (Some player)"
    by blast
  let ?rows = "queryE w ''Dragged''"
  from ready have complete: "\<forall>e. locate w e ''Dragged'' \<noteq> None \<longrightarrow>
         (\<exists>v. locate w e ''Position'' = Some (Position v)) \<and>
         (\<exists>c l. locate w e ''GridPosition'' = Some (GridPosition c l))"
    by (rule conjunct2)
  from onMouseUp_loop [OF refl complete, of player] obtain w'
    where all: "for_of (TileDragSystem_onMouseUp_body (Some player)) ?rows w = (None, w') \<and>
           lastId w' = lastId w \<and>
           (\<forall>n. n \<noteq> ''GridPosition'' \<and> n \<noteq> ''Dragged'' \<longrightarrow> registry w' n = registry w n) \<and>
           (\<forall>e. locate w' e ''Dragged'' =
              (if e \<in> fst ` set ?rows then None else locate w e ''Dragged'')) \<and>
           (\<forall>e. e \<notin> fst ` set ?rows \<longrightarrow>
              locate w' e ''GridPosition'' = locate w e ''GridPosition'') \<and>
           (\<forall>e x y. e \<in> fst ` set ?rows \<and> locate w e ''Position'' = Some (Position (Vector2 x y))
              \<longrightarrow> locate w' e ''GridPosition'' =
                    Some (GridPosition (of_int \<lfloor>(x + 32) / 64\<rfloor>) (of_int \<lfloor>(y + 32) / 64\<rfloor>)))" ..
  then have run: "TileDragSystem_onMouseUp w event = (None, w')"
    by (simp add: TileDragSystem_onMouseUp_def player)
  have keys: "e \<in> fst ` set ?rows \<longleftrightarrow> locate w e ''Dragged'' \<noteq> None" for e
    using keys_queryE [of w "''Dragged''"] by auto
  show "fst (TileDragSystem_onMouseUp w event) = None"
    by (simp add: run)
  show "lastId (snd (TileDragSystem_onMouseUp w event)) = lastId w"
    using all by (simp add: run)
  show "\<forall>n. n \<noteq> ''GridPosition'' \<and> n \<noteq> ''Dragged'' \<longrightarrow>
         registry (snd (TileDragSystem_onMouseUp w event)) n = registry w n"
    using all by (simp add: run)
  show "\<forall>e. locate (snd (TileDragSystem_onMouseUp w event)) e ''Dragged'' = None"
  proof
    fix e
    from all have "locate w' e ''Dragged'' =
        (if e \<in> fst ` set ?rows then None else locate w e ''Dragged'')"
      by blast
    then show "locate (snd (TileDragSystem_onMouseUp w event)) e ''Dragged'' = None"
      using keys [of e] by (simp add: run split: if_splits)
  qed
  show "\<forall>e. locate w e ''Dragged'' = None \<longrightarrow>
         locate (snd (TileDragSystem_onMouseUp w event)) e ''GridPosition''
           = locate w e ''GridPosition''"
  proof (intro allI impI)
    fix e
    assume "locate w e ''Dragged'' = None"
    with keys [of e] have "e \<notin> fst ` set ?rows" by simp
    with all show "locate (snd (TileDragSystem_onMouseUp w event)) e ''GridPosition''
           = locate w e ''GridPosition''"
      by (simp add: run)
  qed
  show "\<forall>e x y. locate w e ''Dragged'' \<noteq> None \<and>
               locate w e ''Position'' = Some (Position (Vector2 x y)) \<longrightarrow>
         locate (snd (TileDragSystem_onMouseUp w event)) e ''GridPosition'' =
           Some (GridPosition (of_int \<lfloor>(x + 32) / 64\<rfloor>) (of_int \<lfloor>(y + 32) / 64\<rfloor>))"
  proof (intro allI impI)
    fix e x y
    assume e: "locate w e ''Dragged'' \<noteq> None \<and>
        locate w e ''Position'' = Some (Position (Vector2 x y))"
    with keys [of e] have "e \<in> fst ` set ?rows \<and>
        locate w e ''Position'' = Some (Position (Vector2 x y))"
      by simp
    with all have "locate w' e ''GridPosition'' =
        Some (GridPosition (of_int \<lfloor>(x + 32) / 64\<rfloor>) (of_int \<lfloor>(y + 32) / 64\<rfloor>))"
      by blast
    then show "locate (snd (TileDragSystem_onMouseUp w event)) e ''GridPosition'' =
           Some (GridPosition (of_int \<lfloor>(x + 32) / 64\<rfloor>) (of_int \<lfloor>(y + 32) / 64\<rfloor>))"
      by (simp add: run)
  qed
qed

theorem TileDragSystem_onMouseUp_snaps_witness:
  "fst (TileDragSystem_onMouseUp
     (register 3 (PlayerProperties ''player1'') (register 2 Dragged
     (register 2 (GridPosition 5 4) (register 2 (Position (Vector2 384 256)) World_new))))
     \<lparr>clientX = 0, clientY = 0\<rparr>) = None \<and>
   locate (snd (TileDragSystem_onMouseUp
     (register 3 (PlayerProperties ''player1'') (register 2 Dragged
     (register 2 (GridPosition 5 4) (register 2 (Position (Vector2 384 256)) World_new))))
     \<lparr>clientX = 0, clientY = 0\<rparr>)) 2 ''GridPosition'' = Some (GridPosition 6 4) \<and>
   locate (snd (TileDragSystem_onMouseUp
     (register 3 (PlayerProperties ''player1'') (register 2 Dragged
     (register 2 (GridPosition 5 4) (register 2 (Position (Vector2 384 256)) World_new))))
     \<lparr>clientX = 0, clientY = 0\<rparr>)) 2 ''Dragged'' = None \<and>
   TileDragSystem_onMouseUp (register 3 (PlayerProperties ''player1'') World_new)
     \<lparr>clientX = 0, clientY = 0\<rparr>
     = (None, register 3 (PlayerProperties ''player1'') World_new)"
proof -
  let ?w = "register 3 (PlayerProperties ''player1'') (register 2 Dragged
     (register 2 (GridPosition 5 4) (register 2 (Position (Vector2 384 256)) World_new)))"
  let ?idle = "register 3 (PlayerProperties ''player1'') World_new"
  let ?ev = "\<lparr>clientX = 0, clientY = 0\<rparr>"
  have "queryE ?w ''PlayerProperties'' = [(3, PlayerProperties ''player1'')]"
    by (simp add: queryE_register queryE_World_new)
  then have player: "\<exists>p. queryUnique ?w ''PlayerProperties'' = Inr (Some p)"
    by (simp add: queryUnique_first)
  have complete: "\<forall>e. locate ?w e ''Dragged'' \<noteq> None \<longrightarrow>
         (\<exists>v. locate ?w e ''Position'' = Some (Position v)) \<and>
         (\<exists>c l. locate ?w e ''GridPosition'' = Some (GridPosition c l))"
    by (simp add: locate_register locate_World_new)
  have tile: "locate ?w 2 ''Dragged'' \<noteq> None \<and>
      locate ?w 2 ''Position'' = Some (Position (Vector2 384 256))"
    by (simp add: locate_register locate_World_new)
  have ready: "(\<exists>p. queryUnique ?w ''PlayerProperties'' = Inr (Some p)) \<and>
      (\<forall>e. locate ?w e ''Dragged'' \<noteq> None \<longrightarrow>
         (\<exists>v. locate ?w e ''Position'' = Some (Position v)) \<and>
         (\<exists>c l. locate ?w e ''GridPosition'' = Some (GridPosition c l)))"
    using player complete by (rule conjI)
  note after = TileDragSystem_onMouseUp_snaps [of ?w ?ev, THEN conjunct2, THEN mp, OF ready]
  from after have quiet: "fst (TileDragSystem_onMouseUp ?w ?ev) = None"
    by (rule conjunct1)
  from after have "\<forall>e x y. locate ?w e ''Dragged'' \<noteq> None \<and>
               locate ?w e ''Position'' = Some (Position (Vector2 x y)) \<longrightarrow>
         locate (snd (TileDragSystem_onMouseUp ?w ?ev)) e ''GridPosition'' =
           Some (GridPosition (of_int \<lfloor>(x + 32) / 64\<rfloor>) (of_int \<lfloor>(y + 32) / 64\<rfloor>))"
    by (rule conjunct2 [THEN conjunct1])
  then have "locate ?w 2 ''Dragged'' \<noteq> None \<and>
               locate ?w 2 ''Position'' = Some (Position (Vector2 384 256)) \<longrightarrow>
         locate (snd (TileDragSystem_onMouseUp ?w ?ev)) 2 ''GridPosition'' =
           Some (GridPosition (of_int \<lfloor>(384 + 32) / (64::real)\<rfloor>)
                              (of_int \<lfloor>(256 + 32) / (64::real)\<rfloor>))"
    by (elim allE)
  from this [THEN mp, OF tile]
  have snapped: "locate (snd (TileDragSystem_onMouseUp ?w ?ev)) 2 ''GridPosition'' =
      Some (GridPosition 6 4)"
    by simp
  from after have "\<forall>e. locate (snd (TileDragSystem_onMouseUp ?w ?ev)) e ''Dragged'' = None"
    by (rule conjunct2 [THEN conjunct2, THEN conjunct1])
  then have released: "locate (snd (TileDragSystem_onMouseUp ?w ?ev)) 2 ''Dragged'' = None"
    by (rule spec)
  have "queryE ?idle ''PlayerProperties'' = [(3, PlayerProperties ''player1'')]"
    by (simp add: queryE_register queryE_World_new)
  then have "\<exists>p. queryUnique ?idle ''PlayerProperties'' = Inr (Some p)"
    by (simp add: queryUnique_first)
  moreover have "\<forall>e. locate ?idle e ''Dragged'' = None"
    by (simp add: locate_register locate_World_new)
  ultimately have "(\<exists>p. queryUnique ?idle ''PlayerProperties'' = Inr (Some p)) \<and>
      (\<forall>e. locate ?idle e ''Dragged'' = None)"
    by (rule conjI)
  from TileDragSystem_onMouseUp_snaps [of ?idle ?ev, THEN conjunct1, THEN mp, OF this]
  have noop: "TileDragSystem_onMouseUp ?idle ?ev = (None, ?idle)" .
  from quiet snapped released noop show ?thesis
    by (intro conjI)
qed

text \<open>
  C2 as stated fails in two ways. On a new World no entity carries \<open>Dragged\<close>, and
  \<open>onMouseUp\<close> raises \<open>ComponentNotRegistered\<close>: it asks for the unique
  \<open>PlayerProperties\<close> first. Where entity 1 carries \<open>Dragged\<close> and has no \<open>GridPosition\<close>,
  writing to its absent grid position throws and ends the loop, and entity 2, after it
  in the table, with \<open>Dragged\<close>, \<open>Position (70, 70)\<close> and \<open>GridPosition\<close>, is neither
  snapped to \<open>(1, 1)\<close> nor released.
\<close>

theorem TileDragSystem_onMouseUp_counterexample:
  "query World_new ''Dragged'' = [] \<and>
   TileDragSystem_onMouseUp World_new \<lparr>clientX = 0, clientY = 0\<rparr>
     = (Some (ComponentNotRegistered ''PlayerProperties''), World_new) \<and>
   fst (TileDragSystem_onMouseUp
     (register 3 (PlayerProperties ''player1'') (register 2 Dragged
     (register 2 (GridPosition 0 0) (register 2 (Position (Vector2 70 70))
     (register 1 Dragged (register 1 (Position (Vector2 0 0)) World_new))))))
     \<lparr>clientX = 0, clientY = 0\<rparr>) = Some TypeError \<and>
   map (locate (snd (TileDragSystem_onMouseUp
     (register 3 (PlayerProperties ''player1'') (register 2 Dragged
     (register 2 (GridPosition 0 0) (register 2 (Position (Vector2 70 70))
     (register 1 Dragged (register 1 (Position (Vector2 0 0)) World_new))))))
     \<lparr>clientX = 0, clientY = 0\<rparr>)) 2) [''Position'', ''GridPosition'', ''Dragged'']
     = [Some (Position (Vector2 70 70)), Some (GridPosition 0 0), Some Dragged] \<and>
   GridPosition (of_int \<lfloor>(70 + 32) / (64::real)\<rfloor>) (of_int \<lfloor>(70 + 32) / (64::real)\<rfloor>)
     = GridPosition 1 1"
proof -
  let ?ev = "\<lparr>clientX = 0, clientY = 0\<rparr>"
  let ?b = "register 3 (PlayerProperties ''player1'') (register 2 Dragged
     (register 2 (GridPosition 0 0) (register 2 (Position (Vector2 70 70))
     (register 1 Dragged (register 1 (Position (Vector2 0 0)) World_new)))))"
  have new: "query World_new ''Dragged'' = [] \<and>
      TileDragSystem_onMouseUp World_new ?ev
        = (Some (ComponentNotRegistered ''PlayerProperties''), World_new)"
    by (simp add: query_def TileDragSystem_onMouseUp_def queryUnique_def World_new_def)
  have player_b: "queryUnique ?b ''PlayerProperties'' = Inr (Some (PlayerProperties ''player1''))"
    by (rule queryUnique_first [of _ _ 3 _ "[]"]) (simp add: queryE_register queryE_World_new)
  have rows_b: "queryE ?b ''Dragged'' = [(1, Dragged), (2, Dragged)]"
    by (simp add: queryE_register queryE_World_new)
  have "locate ?b 1 ''GridPosition'' = None"
    by (simp add: locate_register locate_World_new)
  then have "TileDragSystem_onMouseUp_body (Some (PlayerProperties ''player1'')) (1, Dragged) ?b
      = (Some TypeError, ?b)"
    by (rule onMouseUp_body_no_grid)
  then have run_b: "TileDragSystem_onMouseUp ?b ?ev = (Some TypeError, ?b)"
    by (simp add: TileDragSystem_onMouseUp_def player_b rows_b)
  have b: "fst (TileDragSystem_onMouseUp ?b ?ev) = Some TypeError \<and>
      map (locate (snd (TileDragSystem_onMouseUp ?b ?ev)) 2) [''Position'', ''GridPosition'', ''Dragged'']
        = [Some (Position (Vector2 70 70)), Some (GridPosition 0 0), Some Dragged]"
    unfolding run_b by (simp add: locate_register locate_World_new)
  have "GridPosition (of_int \<lfloor>(70 + 32) / (64::real)\<rfloor>) (of_int \<lfloor>(70 + 32) / (64::real)\<rfloor>)
      = GridPosition 1 1"
    by simp
  with new b show ?thesis
    by (intro conjI) simp_all
qed

end
